theory Spec2Isabelle
  imports Main
begin

section \<open>JavaScript strings\<close>

text \<open>
  A JavaScript string is a sequence of UTF-16 code units; \<open>charCodeAt\<close> returns one as a
  number.  The model keeps the code units as integers, so that surrogates, which decide
  whether \<open>encodeURIComponent\<close> raises, are visible.  \<open>js\<close> turns an ASCII literal into
  such a string.
\<close>

type_synonym jsstring = "int list"

definition js :: "string \<Rightarrow> jsstring" where
  "js s = map of_char s"

text \<open>\<open>String.prototype.slice(from, to)\<close>: negative indices count from the end, and both are
  clamped to the string.\<close>

definition slice :: "jsstring \<Rightarrow> int \<Rightarrow> int \<Rightarrow> jsstring" where
  "slice s from to =
     (let n = int (length s);
          f = (if from < 0 then max (n + from) 0 else min from n);
          t = (if to < 0 then max (n + to) 0 else min to n)
      in take (nat (t - f)) (drop (nat f) s))"

definition startsWith :: "jsstring \<Rightarrow> jsstring \<Rightarrow> bool" where
  "startsWith s p \<longleftrightarrow> take (length p) s = p"

text \<open>\<open>String.prototype.includes\<close>: the pattern occurs at some offset.\<close>

definition includes_str :: "jsstring \<Rightarrow> jsstring \<Rightarrow> bool" where
  "includes_str s p \<longleftrightarrow> list_ex (\<lambda>i. take (length p) (drop i s) = p) [0 ..< Suc (length s)]"

text \<open>A string is falsy exactly when it is empty: \<open>x || undefined\<close> and \<open>!x\<close> treat an empty
  string like a missing one.\<close>

definition orUndefined :: "jsstring option \<Rightarrow> jsstring option" where
  "orUndefined x = (case x of Some [] \<Rightarrow> None | _ \<Rightarrow> x)"

text \<open>\<open>a || b\<close> on optional strings.\<close>

definition orElse :: "jsstring option \<Rightarrow> jsstring option \<Rightarrow> jsstring option" where
  "orElse a b = (case orUndefined a of Some x \<Rightarrow> Some x | None \<Rightarrow> b)"

text \<open>\<open>s.replace(/^[.]/, '')\<close>: one leading dot is dropped.\<close>

definition stripLeadingDot :: "jsstring \<Rightarrow> jsstring" where
  "stripLeadingDot s = (case s of [] \<Rightarrow> [] | c # r \<Rightarrow> if c = 46 then r else s)"

section \<open>Errors\<close>

text \<open>
  What \<open>convertFile\<close> attaches to the errors it raises (\<open>convert.ts\<close>, lines 103--107 and
  115--120): the properties \<open>stdout\<close>, \<open>stderr\<close>, \<open>code\<close> and \<open>signal\<close>, filled from the locals
  \<open>stdout\<close>, \<open>stderr\<close>, \<open>exitCode\<close> and \<open>exitSignal\<close>.
\<close>

record diagnostics =
  stdout :: jsstring
  stderr :: jsstring
  exitCode :: "int option"
  exitSignal :: "jsstring option"

text \<open>
  Every error the modelled code raises or receives.  \<open>RuntimeError\<close> stands for an error
  raised by the platform (file system, \<open>spawn\<close>, \<open>fetch\<close>), with its message.
\<close>

datatype error =
    OperationTimedOut
  | NoOutputFileProduced diagnostics
  | FailedToReadConvertedFile diagnostics error
  | FetchNotOk int jsstring
  | NoBody
  | MissingUploadUrl
  | NoStreamProvided
  | URIError
  | RuntimeError jsstring

section \<open>Deadline and cancellation scope: \<open>src/common/withTimeout.ts\<close>\<close>

text \<open>
  \<open>withTimeout(fn, ms, parentSignal)\<close> owns an \<open>AbortController\<close>, a flag \<open>timedOut\<close>, an
  optional timer and an optional listener on the parent's signal.  While the promise
  returned by \<open>fn(controller.signal)\<close> is pending, the event loop may run the two callbacks
  the function registered: the timer callback and \<open>onParentAbort\<close>.  The model makes that
  schedule explicit as a list of events and threads the mutable locals through it.
\<close>

datatype wt_event = TimerFires | ParentAborts

text \<open>What the operation can observe of \<open>controller.signal\<close>.\<close>

datatype abort_status = NotAborted | AbortedBeforeCall | AbortedDuringCall

record wt_state =
  aborted :: abort_status
  timedOut :: bool
  timer :: bool
  listening :: bool

text \<open>
  The error leaving \<open>withTimeout\<close> is either the object it constructs itself,
  \<open>new Error('Operation timed out')\<close>, or the very error the operation raised (\<open>throw err\<close>).
\<close>

datatype 'e wt_error = Timeout | Rethrown 'e

text \<open>\<open>controller.abort()\<close>: the first call aborts the signal, later calls change nothing.\<close>

fun abort :: "abort_status \<Rightarrow> abort_status" where
  "abort NotAborted = AbortedDuringCall"
| "abort st = st"

text \<open>
  Lines 6--24.  \<open>ms\<close> is \<open>None\<close> for \<open>undefined\<close>; the parent signal is \<open>None\<close> when no signal
  was passed and \<open>Some b\<close> when one was, \<open>b\<close> being its \<open>aborted\<close> flag at the call.
\<close>

definition wt_init :: "int option \<Rightarrow> bool option \<Rightarrow> wt_state" where
  "wt_init ms parentSignal =
     \<lparr> aborted = (case parentSignal of Some True \<Rightarrow> AbortedBeforeCall | _ \<Rightarrow> NotAborted),
       timedOut = False,
       timer = (case ms of Some m \<Rightarrow> 0 < m | None \<Rightarrow> False),
       listening = (case parentSignal of Some False \<Rightarrow> True | _ \<Rightarrow> False) \<rparr>"

text \<open>The two callbacks (lines 20--23 and line 10).  A timer that was never set cannot fire,
  and a parent without a listener cannot reach the controller.\<close>

fun wt_step :: "wt_state \<Rightarrow> wt_event \<Rightarrow> wt_state" where
  "wt_step s TimerFires =
     (if timer s then s\<lparr> timedOut := True, aborted := abort (aborted s), timer := False \<rparr> else s)"
| "wt_step s ParentAborts =
     (if listening s then s\<lparr> aborted := abort (aborted s) \<rparr> else s)"

definition wt_run :: "int option \<Rightarrow> bool option \<Rightarrow> wt_event list \<Rightarrow> wt_state" where
  "wt_run ms parentSignal events = foldl wt_step (wt_init ms parentSignal) events"

text \<open>The \<open>finally\<close> block (lines 30--35): the timer is cleared and the listener removed.\<close>

definition wt_finally :: "wt_state \<Rightarrow> wt_state" where
  "wt_finally s = s\<lparr> timer := False, listening := False \<rparr>"

text \<open>Lines 26--29: the operation's value is returned as it is; an error is replaced by the
  timeout error exactly when \<open>timedOut\<close> is set.\<close>

definition wt_settle :: "wt_state \<Rightarrow> 'e + 'a \<Rightarrow> 'e wt_error + 'a" where
  "wt_settle s r =
     (case r of
        Inr v \<Rightarrow> Inr v
      | Inl err \<Rightarrow> if timedOut s then Inl Timeout else Inl (Rethrown err))"

text \<open>What the operation sees of the signal once the scheduled callbacks have run.\<close>

definition wt_signal :: "int option \<Rightarrow> bool option \<Rightarrow> wt_event list \<Rightarrow> abort_status" where
  "wt_signal ms parentSignal events = aborted (wt_run ms parentSignal events)"

text \<open>
  The operation may have effects; they are threaded as a state \<open>'s\<close>, which the operation
  returns changed whether it completes or raises.
\<close>

definition withTimeout ::
  "(abort_status \<Rightarrow> 's \<Rightarrow> ('e + 'a) \<times> 's) \<Rightarrow> int option \<Rightarrow> bool option \<Rightarrow> wt_event list \<Rightarrow> 's
     \<Rightarrow> ('e wt_error + 'a) \<times> 's" where
  "withTimeout fn ms parentSignal events w =
     (let s = wt_run ms parentSignal events;
          (r, w') = fn (aborted s) w
      in (wt_settle s r, w'))"

definition withTimeout_after ::
  "int option \<Rightarrow> bool option \<Rightarrow> wt_event list \<Rightarrow> wt_state" where
  "withTimeout_after ms parentSignal events = wt_finally (wt_run ms parentSignal events)"

text \<open>The callers read only the message of what \<open>withTimeout\<close> throws; as an \<open>error\<close> it is
  either the timeout error or the operation's own.\<close>

fun thrown :: "error wt_error \<Rightarrow> error" where
  "thrown Timeout = OperationTimedOut"
| "thrown (Rethrown e) = e"

section \<open>File names: \<open>src/common/filename.ts\<close>\<close>

subsection \<open>Platform functions used by the file\<close>

text \<open>
  \<open>basename\<close> and \<open>extname\<close> are imported from the platform's \<open>path\<close> module, and \<open>trim\<close> and
  \<open>encodeURIComponent\<close> are built in.  They are written here as the POSIX variant of the
  \<open>path\<close> module and ECMA-262 define them: \<open>basename\<close> and \<open>extname\<close> scan the path from its
  end, the loop index running down from \<open>length path - 1\<close>; \<open>-1\<close> is the "not found" value of
  the indices, as in the original loops.  Code unit 47 is the slash, 46 the dot.
\<close>

text \<open>\<open>basename(path)\<close>: the last portion of the path, trailing slashes ignored.\<close>

fun basename_scan :: "jsstring \<Rightarrow> nat \<Rightarrow> int \<Rightarrow> int \<Rightarrow> bool \<Rightarrow> int \<times> int" where
  "basename_scan path 0 start endIdx matchedSlash = (start, endIdx)"
| "basename_scan path (Suc i) start endIdx matchedSlash =
     (if path ! i = 47 then
        (if \<not> matchedSlash then (int i + 1, endIdx)
         else basename_scan path i start endIdx matchedSlash)
      else if endIdx = -1 then basename_scan path i start (int i + 1) False
      else basename_scan path i start endIdx matchedSlash)"

definition basename :: "jsstring \<Rightarrow> jsstring" where
  "basename path =
     (case basename_scan path (length path) 0 (-1) True of
        (start, endIdx) \<Rightarrow> if endIdx = -1 then [] else slice path start endIdx)"

text \<open>\<open>basename(path, suffix)\<close>: the same, with \<open>suffix\<close> removed from the end of the portion
  when it is there and is not the whole portion.\<close>

record suffix_scan =
  bsStart :: int
  bsEnd :: int
  bsMatchedSlash :: bool
  extIdx :: int
  firstNonSlashEnd :: int

fun basename_suffix_scan :: "jsstring \<Rightarrow> jsstring \<Rightarrow> nat \<Rightarrow> suffix_scan \<Rightarrow> suffix_scan" where
  "basename_suffix_scan path suffix 0 st = st"
| "basename_suffix_scan path suffix (Suc i) st =
     (let code = path ! i in
      if code = 47 then
        (if \<not> bsMatchedSlash st then st\<lparr> bsStart := int i + 1 \<rparr>
         else basename_suffix_scan path suffix i st)
      else
        (let st1 = (if firstNonSlashEnd st = -1
                    then st\<lparr> bsMatchedSlash := False, firstNonSlashEnd := int i + 1 \<rparr> else st);
             st2 = (if 0 \<le> extIdx st1 then
                      (if code = suffix ! nat (extIdx st1) then
                         (if extIdx st1 - 1 = -1
                          then st1\<lparr> extIdx := extIdx st1 - 1, bsEnd := int i \<rparr>
                          else st1\<lparr> extIdx := extIdx st1 - 1 \<rparr>)
                       else st1\<lparr> extIdx := -1, bsEnd := firstNonSlashEnd st1 \<rparr>)
                    else st1)
         in basename_suffix_scan path suffix i st2))"

definition basename_suffix :: "jsstring \<Rightarrow> jsstring \<Rightarrow> jsstring" where
  "basename_suffix path suffix =
     (if 0 < length suffix \<and> length suffix \<le> length path then
        (if suffix = path then []
         else
           (let st = basename_suffix_scan path suffix (length path)
                       \<lparr> bsStart = 0, bsEnd = -1, bsMatchedSlash = True,
                         extIdx = int (length suffix) - 1, firstNonSlashEnd = -1 \<rparr>;
                e = (if bsStart st = bsEnd st then firstNonSlashEnd st
                     else if bsEnd st = -1 then int (length path)
                     else bsEnd st)
            in slice path (bsStart st) e))
      else basename path)"

text \<open>\<open>extname(path)\<close>: from the last dot of the last portion to its end; empty when there is
  no dot, or the portion starts with its only dot, or is \<open>..\<close>.\<close>

record ext_scan =
  startDot :: int
  startPart :: int
  extEnd :: int
  extMatchedSlash :: bool
  preDotState :: int

fun extname_scan :: "jsstring \<Rightarrow> nat \<Rightarrow> ext_scan \<Rightarrow> ext_scan" where
  "extname_scan path 0 st = st"
| "extname_scan path (Suc i) st =
     (let code = path ! i in
      if code = 47 then
        (if \<not> extMatchedSlash st then st\<lparr> startPart := int i + 1 \<rparr>
         else extname_scan path i st)
      else
        (let st1 = (if extEnd st = -1
                    then st\<lparr> extMatchedSlash := False, extEnd := int i + 1 \<rparr> else st);
             st2 = (if code = 46 then
                      (if startDot st1 = -1 then st1\<lparr> startDot := int i \<rparr>
                       else if preDotState st1 \<noteq> 1 then st1\<lparr> preDotState := 1 \<rparr>
                       else st1)
                    else if startDot st1 \<noteq> -1 then st1\<lparr> preDotState := -1 \<rparr>
                    else st1)
         in extname_scan path i st2))"

definition extname :: "jsstring \<Rightarrow> jsstring" where
  "extname path =
     (let st = extname_scan path (length path)
                 \<lparr> startDot = -1, startPart = 0, extEnd = -1, extMatchedSlash = True,
                   preDotState = 0 \<rparr>
      in if startDot st = -1 \<or> extEnd st = -1 \<or> preDotState st = 0 \<or>
            (preDotState st = 1 \<and> startDot st = extEnd st - 1 \<and> startDot st = startPart st + 1)
         then []
         else slice path (startDot st) (extEnd st))"



text \<open>\<open>String.prototype.trim\<close> removes white space and line terminators (ECMA-262, the
  productions WhiteSpace and LineTerminator) from both ends.\<close>

definition isWhiteSpaceOrLineTerminator :: "int \<Rightarrow> bool" where
  "isWhiteSpaceOrLineTerminator c \<longleftrightarrow>
     (9 \<le> c \<and> c \<le> 13) \<or> c = 32 \<or> c = 160 \<or> c = 5760 \<or> (8192 \<le> c \<and> c \<le> 8202) \<or>
     c = 8232 \<or> c = 8233 \<or> c = 8239 \<or> c = 8287 \<or> c = 12288 \<or> c = 65279"

definition trim :: "jsstring \<Rightarrow> jsstring" where
  "trim s = rev (dropWhile isWhiteSpaceOrLineTerminator
                  (rev (dropWhile isWhiteSpaceOrLineTerminator s)))"

subsection \<open>\<open>sanitizeFilename\<close> (lines 4--33)\<close>

text \<open>The characters of line 19: \<open>" \\ / < > | : * ?\<close>.\<close>

definition problematic :: "int list" where
  "problematic = [34, 92, 47, 60, 62, 124, 58, 42, 63]"

text \<open>The body of the loop (lines 10--24): a control character (code at most 31) or a
  problematic character becomes an underscore (95), any other is kept.\<close>

definition sanitizeChar :: "int \<Rightarrow> int" where
  "sanitizeChar code = (if code \<le> 31 then 95 else if code \<in> set problematic then 95 else code)"

definition sanitizeFilename :: "jsstring \<Rightarrow> nat \<Rightarrow> jsstring" where
  "sanitizeFilename name maxLength =
     (if name = [] then js ''file''
      else
        (let b0 = basename name;
             b1 = map sanitizeChar b0;
             b2 = trim b1;
             b3 = (if maxLength < length b2 then slice b2 0 (int maxLength) else b2)
         in if b3 = [] then js ''file'' else b3))"

subsection \<open>\<open>encodeURIComponent\<close>\<close>

text \<open>
  ECMA-262, Encode with the unreserved set of \<open>encodeURIComponent\<close>: letters, digits and
  \<open>- _ . ! ~ * ' ( )\<close> are copied; any other code point is written as the percent-encoded
  octets of its UTF-8 form.  A surrogate that is not part of a pair raises \<open>URIError\<close>.
\<close>

definition uriUnescaped :: "int \<Rightarrow> bool" where
  "uriUnescaped c \<longleftrightarrow>
     (65 \<le> c \<and> c \<le> 90) \<or> (97 \<le> c \<and> c \<le> 122) \<or> (48 \<le> c \<and> c \<le> 57) \<or>
     c \<in> set [45, 95, 46, 33, 126, 42, 39, 40, 41]"

definition isLeadingSurrogate :: "int \<Rightarrow> bool" where
  "isLeadingSurrogate c \<longleftrightarrow> 55296 \<le> c \<and> c \<le> 56319"

definition isTrailingSurrogate :: "int \<Rightarrow> bool" where
  "isTrailingSurrogate c \<longleftrightarrow> 56320 \<le> c \<and> c \<le> 57343"

definition surrogatePairToCodePoint :: "int \<Rightarrow> int \<Rightarrow> int" where
  "surrogatePairToCodePoint lead trail = (lead - 55296) * 1024 + (trail - 56320) + 65536"

definition utf8 :: "int \<Rightarrow> int list" where
  "utf8 cp =
     (if cp < 128 then [cp]
      else if cp < 2048 then [192 + cp div 64, 128 + cp mod 64]
      else if cp < 65536 then [224 + cp div 4096, 128 + (cp div 64) mod 64, 128 + cp mod 64]
      else [240 + cp div 262144, 128 + (cp div 4096) mod 64, 128 + (cp div 64) mod 64,
            128 + cp mod 64])"

definition hexDigit :: "int \<Rightarrow> int" where
  "hexDigit d = (if d < 10 then 48 + d else 55 + d)"

definition percentOctet :: "int \<Rightarrow> jsstring" where
  "percentOctet b = [37, hexDigit (b div 16), hexDigit (b mod 16)]"

definition percentEncode :: "int \<Rightarrow> jsstring" where
  "percentEncode cp = concat (map percentOctet (utf8 cp))"

fun encodeURIComponent :: "jsstring \<Rightarrow> error + jsstring" where
  "encodeURIComponent [] = Inr []"
| "encodeURIComponent (c # cs) =
     (if uriUnescaped c then
        (case encodeURIComponent cs of Inl e \<Rightarrow> Inl e | Inr r \<Rightarrow> Inr (c # r))
      else if isTrailingSurrogate c then Inl URIError
      else if isLeadingSurrogate c then
        (case cs of
           [] \<Rightarrow> Inl URIError
         | d # ds \<Rightarrow>
             if isTrailingSurrogate d then
               (case encodeURIComponent ds of
                  Inl e \<Rightarrow> Inl e
                | Inr r \<Rightarrow> Inr (percentEncode (surrogatePairToCodePoint c d) @ r))
             else Inl URIError)
      else
        (case encodeURIComponent cs of
           Inl e \<Rightarrow> Inl e
         | Inr r \<Rightarrow> Inr (percentEncode c @ r)))"

subsection \<open>\<open>buildContentDispositionAttachment\<close> (lines 37--51)\<close>

text \<open>Line 40: a leading dot of the extension is removed.\<close>

definition cleanExtension :: "jsstring \<Rightarrow> jsstring" where
  "cleanExtension ext = (if startsWith ext (js ''.'') then slice ext 1 (int (length ext)) else ext)"

text \<open>Lines 43--44: the base of the original name, without its own extension (or without the
  target extension when it has none), sanitised.\<close>

definition safeBaseOf :: "jsstring \<Rightarrow> jsstring \<Rightarrow> nat \<Rightarrow> jsstring" where
  "safeBaseOf originalName ext maxBaseLength =
     (let cleanExt = cleanExtension ext;
          base = basename_suffix originalName
                   (if extname originalName \<noteq> [] then extname originalName
                    else js ''.'' @ cleanExt)
      in sanitizeFilename base maxBaseLength)"

text \<open>Line 45.\<close>

definition attachmentFilename :: "jsstring \<Rightarrow> jsstring \<Rightarrow> nat \<Rightarrow> jsstring" where
  "attachmentFilename originalName ext maxBaseLength =
     (let cleanExt = cleanExtension ext;
          safeBase = safeBaseOf originalName ext maxBaseLength
      in if cleanExt \<noteq> [] then safeBase @ js ''.'' @ cleanExt else safeBase)"

text \<open>Lines 48--50.  Code unit 34 is the double quote, 39 the single quote.\<close>

definition buildContentDispositionAttachment ::
  "jsstring \<Rightarrow> jsstring \<Rightarrow> nat \<Rightarrow> error + jsstring" where
  "buildContentDispositionAttachment originalName ext maxBaseLength =
     (let filename = attachmentFilename originalName ext maxBaseLength
      in case encodeURIComponent filename of
           Inl e \<Rightarrow> Inl e
         | Inr filenameStar \<Rightarrow>
             Inr (js ''attachment; filename='' @ [34] @ filename @ [34] @
                  js ''; filename*=UTF-8'' @ [39, 39] @ filenameStar))"


section \<open>The world of one request\<close>

text \<open>
  The effects a request has outside the process are kept in a \<open>world\<close>: the temporary
  directories that exist, the files in them, and a trace of the milestones of the request in
  the order in which they happen.  The telemetry calls of \<open>server.ts\<close> go to an external sink
  and are left out.
\<close>

datatype event =
    WorkspaceCreated
  | StagingStarted
  | SlotAcquired
  | ConverterSpawned
  | ConverterExited
  | SlotReleased
  | UploadStarted
  | StreamOpened
  | CleanupAttempted

text \<open>A file either can be read, giving its bytes, or exists and fails to be read, with the
  message of the error.\<close>

datatype file_entry = Readable "int list" | Unreadable jsstring

record world =
  dirs :: "jsstring list"
  files :: "jsstring \<Rightarrow> file_entry option"
  trace :: "event list"

definition emit :: "event \<Rightarrow> world \<Rightarrow> world" where
  "emit e w = w\<lparr> trace := trace w @ [e] \<rparr>"

text \<open>What the converter process does: it fails to start (the \<open>error\<close> event of the child),
  or it closes, having written chunks to its two output streams and files to the disk.\<close>

datatype child_outcome =
    SpawnError jsstring
  | Closed "jsstring list" "jsstring list" "int option" "jsstring option"
      "(jsstring \<times> file_entry) list"

text \<open>What \<open>fetch(downloadUrl)\<close> and the streaming of its body give: a rejected fetch, or a
  response with status, status text, body (if any) and the error of the transfer (if any).\<close>

datatype download_outcome =
    FetchRejected jsstring
  | Fetched int jsstring "int list option" "jsstring option"

datatype body =
    TextBody jsstring
  | ErrorBody jsstring "jsstring option"
  | BytesBody "int list"
  | FileBody jsstring

record put_request =
  putUrl :: jsstring
  putContentType :: jsstring
  putContentDisposition :: jsstring
  putBody :: body

text \<open>What the \<open>PUT\<close> to the upload URL gives: a rejected fetch, or a response with status,
  headers and body.\<close>

datatype put_outcome =
    PutRejected jsstring
  | PutResponse int "(jsstring \<times> jsstring) list" "int list"

datatype stream_end = StreamEnds | StreamErrors

text \<open>
  Everything the code receives from outside while it handles one request:
  \<^item> \<open>fastTmpDir\<close> is the variable \<open>FAST_TMP_DIR\<close>, \<open>accessible\<close> says for which paths
    \<open>access\<close> resolves, \<open>osTmpdir\<close> is \<open>os.tmpdir()\<close>, \<open>mkdtemp\<close> and \<open>rmOk\<close> say what \<open>mkdtemp\<close>
    and \<open>rm\<close> do, \<open>writeFileError\<close> is the error of \<open>writeFile\<close>, if any;
  \<^item> \<open>signalAborted\<close> is the state of the signal passed to \<open>convertFile\<close>, and \<open>child\<close> is
    the converter process, as a function of its arguments and of what its signal shows;
  \<^item> \<open>uploadStreamError\<close> is the error of the caller's upload stream, if any, \<open>urlPathname\<close>
    is the path \<open>new URL\<close> reads from a URL, \<open>download\<close> is the download source and \<open>put\<close> the
    upload target, \<open>streamEnd\<close> is how the read stream of the response finishes;
  \<^item> the lists of \<open>wt_event\<close> are the callbacks that run while the respective \<open>withTimeout\<close>
    is pending.
\<close>

record env =
  fastTmpDir :: "jsstring option"
  accessible :: "jsstring \<Rightarrow> bool"
  osTmpdir :: jsstring
  mkdtemp :: "jsstring \<Rightarrow> jsstring option"
  rmOk :: bool
  writeFileError :: "jsstring option"
  signalAborted :: bool
  childEvents :: "wt_event list"
  child :: "jsstring list \<Rightarrow> abort_status \<Rightarrow> child_outcome"
  uploadStreamError :: "jsstring option"
  urlPathname :: "jsstring \<Rightarrow> jsstring"
  downloadEvents :: "wt_event list"
  download :: "jsstring \<Rightarrow> abort_status \<Rightarrow> download_outcome"
  conversionEvents :: "wt_event list"
  uploadEvents :: "wt_event list"
  put :: "put_request \<Rightarrow> abort_status \<Rightarrow> put_outcome"
  streamEnd :: stream_end

section \<open>Scoped temporary workspace: \<open>src/common/class/FileTemp.ts\<close> and \<open>withTemp\<close>\<close>

record FileTemp =
  tempDir :: jsstring
  filePath :: jsstring
  fast :: bool

text \<open>\<open>path.join\<close> of a directory without a trailing slash and a name.\<close>

definition join :: "jsstring \<Rightarrow> jsstring \<Rightarrow> jsstring" where
  "join dir name = dir @ js ''/'' @ name"

text \<open>\<open>chooseBaseDir\<close> (lines 21--33).\<close>

definition chooseBaseDir :: "env \<Rightarrow> jsstring \<times> bool" where
  "chooseBaseDir e =
     (let candidate = (case orUndefined (fastTmpDir e) of Some c \<Rightarrow> c | None \<Rightarrow> js ''/dev/shm'')
      in if candidate \<noteq> [] \<and> accessible e candidate
         then (candidate, candidate = js ''/dev/shm'')
         else (osTmpdir e, False))"

definition created :: "jsstring \<Rightarrow> world \<Rightarrow> world" where
  "created base w = emit WorkspaceCreated (w\<lparr> dirs := base # dirs w \<rparr>)"

text \<open>\<open>init\<close> (lines 35--50): \<open>mkdtemp\<close> under the chosen directory, and under the system's
  directory when that fails; when that fails too the promise awaited by \<open>ready\<close> rejects.
  \<open>mkdtemp\<close> of the environment gives the characters that are appended to the prefix to name
  the new directory, or \<open>None\<close> when no directory can be made.\<close>

definition init :: "env \<Rightarrow> jsstring \<Rightarrow> world \<Rightarrow> (error + FileTemp) \<times> world" where
  "init e prefix w =
     (case chooseBaseDir e of (dir, isFast) \<Rightarrow>
        (case mkdtemp e (join dir prefix) of
           Some suffix \<Rightarrow>
             (let base = join dir prefix @ suffix
              in (Inr \<lparr> tempDir = base, filePath = join base (js ''file''), fast = isFast \<rparr>,
                  created base w))
         | None \<Rightarrow>
             (case mkdtemp e (join (osTmpdir e) prefix) of
                Some suffix \<Rightarrow>
                  (let base = join (osTmpdir e) prefix @ suffix
                   in (Inr \<lparr> tempDir = base, filePath = join base (js ''file''), fast = False \<rparr>,
                       created base w))
              | None \<Rightarrow> (Inl (RuntimeError (js ''mkdtemp failed'')), w))))"

text \<open>\<open>new FileTemp()\<close> followed by \<open>await temp.ready()\<close>.\<close>

definition newFileTemp :: "env \<Rightarrow> world \<Rightarrow> (error + FileTemp) \<times> world" where
  "newFileTemp e w = init e (js ''doc-conv-'') w"

text \<open>\<open>cleanFileOnTmpFolder\<close> (lines 56--63): \<open>rm\<close> with \<open>recursive\<close> and \<open>force\<close>; an error of
  \<open>rm\<close> is swallowed and leaves the directory.\<close>

definition cleanFileOnTmpFolder :: "env \<Rightarrow> FileTemp \<Rightarrow> world \<Rightarrow> world" where
  "cleanFileOnTmpFolder e t w =
     (if tempDir t = [] then w
      else
        (let w1 = emit CleanupAttempted w
         in if rmOk e
            then w1\<lparr> dirs := removeAll (tempDir t) (dirs w1),
                     files := (\<lambda>p. if startsWith p (tempDir t @ js ''/'') then None
                                    else files w1 p) \<rparr>
            else w1))"

text \<open>\<open>withTemp\<close> (\<open>src/common/withTemp.ts\<close>, lines 8--25).\<close>

definition withTemp ::
  "env \<Rightarrow> FileTemp option \<Rightarrow> (FileTemp \<Rightarrow> world \<Rightarrow> (error + 'a) \<times> world) \<Rightarrow> bool \<Rightarrow> world
     \<Rightarrow> (error + 'a) \<times> world" where
  "withTemp e maybeTemp fn keepTemp w =
     (case (case maybeTemp of Some t \<Rightarrow> (Inr t, w) | None \<Rightarrow> newFileTemp e w) of
        (Inl err, w1) \<Rightarrow> (Inl err, w1)
      | (Inr t, w1) \<Rightarrow>
          (case fn t w1 of (r, w2) \<Rightarrow>
             (r, if \<not> keepTemp then cleanFileOnTmpFolder e t w2 else w2)))"

section \<open>Bounded transfer: \<open>src/common/stream.ts\<close>\<close>

text \<open>
  \<open>streamWebToFile\<close> (lines 13--31) pipes a stream into a file.  The stream is given by the
  bytes it carries, \<open>None\<close> for a missing stream; the error of the pipeline, if any, comes
  from outside.
\<close>

definition streamWebToFile ::
  "int list option \<Rightarrow> jsstring \<Rightarrow> jsstring option \<Rightarrow> world \<Rightarrow> (error + unit) \<times> world" where
  "streamWebToFile stream path pipelineError w =
     (case stream of
        None \<Rightarrow> (Inl NoStreamProvided, w)
      | Some bytes \<Rightarrow>
          (case pipelineError of
             Some msg \<Rightarrow> (Inl (RuntimeError msg), w)
           | None \<Rightarrow> (Inr (), w\<lparr> files := (files w)(path \<mapsto> Readable bytes) \<rparr>)))"

section \<open>Admission limiter\<close>










text \<open>
  Modelled from the spec: within one request, \<open>limit(task)\<close> of the missing \<open>p-limit\<close> runs
  the task once a slot is free and gives the slot back when the task has settled, with a
  value or an error (section 3, AdmissionSlot, and section 4.5).
\<close>

definition limit :: "(world \<Rightarrow> 'a \<times> world) \<Rightarrow> world \<Rightarrow> 'a \<times> world" where
  "limit task w = (case task (emit SlotAcquired w) of (r, w1) \<Rightarrow> (r, emit SlotReleased w1))"

section \<open>Conversion invoker: \<open>src/lib/convert.ts\<close>\<close>

text \<open>Line 9.  The third alternative of the type is declared and never built by
  \<open>convertFile\<close>.\<close>

datatype ConvertResult =
    ConvertedFile "int list"
  | OutputPath jsstring
  | Output "jsstring option" "jsstring option"

text \<open>Lines 11--22.  \<open>optSignal\<close> says whether a signal was passed; its state when
  \<open>withTimeout\<close> is entered is \<open>signalAborted\<close> of the environment.\<close>

record ConvertOptions =
  optTemp :: "FileTemp option"
  optKeepTemp :: bool
  optTimeoutMs :: "int option"
  optSignal :: bool
  optVerbose :: bool

text \<open>Line 31.\<close>

definition obtainTemp :: "env \<Rightarrow> ConvertOptions \<Rightarrow> world \<Rightarrow> (error + FileTemp) \<times> world" where
  "obtainTemp e opts w = (case optTemp opts of Some t \<Rightarrow> (Inr t, w) | None \<Rightarrow> newFileTemp e w)"

text \<open>Lines 35--36 and 43.\<close>

definition inputPathOf :: "int list + jsstring \<Rightarrow> jsstring \<Rightarrow> FileTemp \<Rightarrow> jsstring" where
  "inputPathOf documentOrPath fromExt t =
     (case documentOrPath of Inr path \<Rightarrow> path | Inl buffer \<Rightarrow> filePath t @ js ''.'' @ fromExt)"

definition outputPathOf :: "jsstring \<Rightarrow> FileTemp \<Rightarrow> jsstring" where
  "outputPathOf toExt t = filePath t @ js ''.'' @ toExt"

definition converterArgs :: "jsstring \<Rightarrow> jsstring \<Rightarrow> FileTemp \<Rightarrow> jsstring list" where
  "converterArgs toExt inputPath t =
     [js ''--headless'', js ''--convert-to'', toExt, inputPath, js ''--outdir'', tempDir t]"

text \<open>Lines 38--41: a buffer is written to the input path.\<close>

definition writeInput ::
  "env \<Rightarrow> int list + jsstring \<Rightarrow> jsstring \<Rightarrow> world \<Rightarrow> (error + unit) \<times> world" where
  "writeInput e documentOrPath inputPath w =
     (case documentOrPath of
        Inr path \<Rightarrow> (Inr (), w)
      | Inl buffer \<Rightarrow>
          (case writeFileError e of
             Some msg \<Rightarrow> (Inl (RuntimeError msg), w)
           | None \<Rightarrow> (Inr (), w\<lparr> files := (files w)(inputPath \<mapsto> Readable buffer) \<rparr>)))"

text \<open>
  Lines 53--93, the operation run under \<open>withTimeout\<close>: the promise rejects on the child's
  \<open>error\<close> event and resolves on \<open>close\<close>, when the chunks of both streams have been
  appended to \<open>stdout\<close> and \<open>stderr\<close> and the exit code and signal stored.
\<close>

definition runChild ::
  "env \<Rightarrow> jsstring list \<Rightarrow> abort_status \<Rightarrow> world \<Rightarrow> (error + diagnostics) \<times> world" where
  "runChild e args st w =
     (case child e args st of
        SpawnError msg \<Rightarrow> (Inl (RuntimeError msg), w)
      | Closed outs errs code sig written \<Rightarrow>
          (Inr \<lparr> stdout = concat outs, stderr = concat errs, exitCode = code, exitSignal = sig \<rparr>,
           (emit ConverterExited (emit ConverterSpawned w))
             \<lparr> files := files w ++ map_of written \<rparr>))"

text \<open>Lines 95--122: the check for the output file after the process has exited.\<close>

definition checkOutput ::
  "ConvertOptions \<Rightarrow> jsstring \<Rightarrow> diagnostics \<Rightarrow> world \<Rightarrow> error + ConvertResult" where
  "checkOutput opts outputPath d w =
     (case files w outputPath of
        None \<Rightarrow> Inl (NoOutputFileProduced d)
      | Some entry \<Rightarrow>
          if optKeepTemp opts then Inr (OutputPath outputPath)
          else
            (case entry of
               Readable bytes \<Rightarrow> Inr (ConvertedFile bytes)
             | Unreadable msg \<Rightarrow> Inl (FailedToReadConvertedFile d (RuntimeError msg))))"

definition parentSignalOf :: "env \<Rightarrow> ConvertOptions \<Rightarrow> bool option" where
  "parentSignalOf e opts = (if optSignal opts then Some (signalAborted e) else None)"

text \<open>The \<open>try\<close> block, lines 34--122.\<close>

definition convertTry ::
  "env \<Rightarrow> int list + jsstring \<Rightarrow> jsstring \<Rightarrow> jsstring \<Rightarrow> ConvertOptions \<Rightarrow> FileTemp \<Rightarrow> world
     \<Rightarrow> (error + ConvertResult) \<times> world" where
  "convertTry e documentOrPath fromExt toExt opts t w =
     (let inputPath = inputPathOf documentOrPath fromExt t;
          outputPath = outputPathOf toExt t
      in case writeInput e documentOrPath inputPath w of
           (Inl err, w1) \<Rightarrow> (Inl err, w1)
         | (Inr u, w1) \<Rightarrow>
             (case withTimeout (runChild e (converterArgs toExt inputPath t))
                     (optTimeoutMs opts) (parentSignalOf e opts) (childEvents e) w1 of
                (Inl err, w2) \<Rightarrow> (Inl (thrown err), w2)
              | (Inr d, w2) \<Rightarrow> (checkOutput opts outputPath d w2, w2)))"

text \<open>\<open>convertFile\<close> (lines 24--130): the whole body runs inside the limiter, and the
  \<open>finally\<close> block removes the workspace unless the caller asked to keep it.\<close>

definition convertFile ::
  "env \<Rightarrow> int list + jsstring \<Rightarrow> jsstring \<Rightarrow> jsstring \<Rightarrow> ConvertOptions \<Rightarrow> world
     \<Rightarrow> (error + ConvertResult) \<times> world" where
  "convertFile e documentOrPath fromExt toExt opts w =
     limit (\<lambda>w0.
       case obtainTemp e opts w0 of
         (Inl err, w1) \<Rightarrow> (Inl err, w1)
       | (Inr t, w1) \<Rightarrow>
           (case convertTry e documentOrPath fromExt toExt opts t w1 of (r, w2) \<Rightarrow>
              (r, if \<not> optKeepTemp opts then cleanFileOnTmpFolder e t w2 else w2))) w"

section \<open>Pipeline orchestrator: \<open>src/server.ts\<close>\<close>

subsection \<open>Requests and responses\<close>

text \<open>Line 12: \<open>Math.ceil((2 * 1024 * 1024 * 1024) / (50_000_000 / 8) * 2 * 1000)\<close>, that is
  the ceiling of 687194.76736.\<close>

definition DEFAULT_TIMEOUT_MS :: int where
  "DEFAULT_TIMEOUT_MS = 687195"

text \<open>The headers of a response are the ones the code sets.\<close>

record response =
  rStatus :: int
  rHeaders :: "(jsstring \<times> jsstring) list"
  rBody :: body

text \<open>Lines 24--26; \<open>ErrorBody error details\<close> is the JSON object with these two members.\<close>

definition badRequest :: "jsstring \<Rightarrow> response" where
  "badRequest msg =
     \<lparr> rStatus = 400, rHeaders = [(js ''Content-Type'', js ''application/json'')],
       rBody = ErrorBody msg None \<rparr>"

definition errorResponse :: "int \<Rightarrow> jsstring \<Rightarrow> jsstring \<Rightarrow> response" where
  "errorResponse st msg details =
     \<lparr> rStatus = st, rHeaders = [(js ''Content-Type'', js ''application/json'')],
       rBody = ErrorBody msg (Some details) \<rparr>"

text \<open>A number as a decimal string, as a template literal prints it.\<close>

function decimal :: "int \<Rightarrow> jsstring" where
  "decimal n = (if n < 0 then 45 # decimal (- n)
                else if n < 10 then [48 + n]
                else decimal (n div 10) @ [48 + n mod 10])"
  by pat_completeness auto
termination
  by (relation "measure (\<lambda>n. if n < 0 then nat (1 - 2 * n) else nat (2 * n))") auto

text \<open>\<open>err.message\<close>.\<close>

fun message :: "error \<Rightarrow> jsstring" where
  "message OperationTimedOut = js ''Operation timed out''"
| "message (NoOutputFileProduced d) = js ''No output file produced''"
| "message (FailedToReadConvertedFile d cause) = js ''Failed to read converted file''"
| "message (FetchNotOk st statusText) =
     js ''FETCH_NOT_OK:'' @ decimal st @ js '':'' @ statusText"
| "message NoBody = js ''NO_BODY''"
| "message MissingUploadUrl = js ''MISSING_UPLOAD_URL''"
| "message NoStreamProvided = js ''No stream provided''"
| "message URIError = js ''URI malformed''"
| "message (RuntimeError msg) = msg"

record upload_file =
  fileName :: jsstring
  fileBytes :: "int list"
  fileHasStream :: bool

text \<open>The fields of the form: \<open>None\<close> where \<open>form.get\<close> gives \<open>null\<close>.\<close>

record form_data =
  formFile :: "upload_file option"
  formFrom :: "jsstring option"
  formTo :: "jsstring option"
  formUploadUrl :: "jsstring option"

text \<open>The JSON body after \<open>JSON.parse\<close>: not JSON, not an object, or an object, of which the
  members \<open>downloadUrl\<close>, \<open>from\<close>, \<open>to\<close> and \<open>uploadUrl\<close> are given where they are strings
  (lines 233--236).\<close>

datatype json_body =
    InvalidJson
  | NotAnObject
  | JsonObject "jsstring option" "jsstring option" "jsstring option" "jsstring option"

text \<open>A request: method, path, content type (empty when absent), the query parameters
  \<open>download\<close> and \<open>uploadUrl\<close>, and the body as \<open>formData()\<close> and as \<open>text()\<close> with
  \<open>JSON.parse\<close> give it, \<open>Inl\<close> when reading the body fails.\<close>

record request =
  reqMethod :: jsstring
  reqPathname :: jsstring
  reqContentType :: jsstring
  hasDownload :: bool
  queryUploadUrl :: "jsstring option"
  reqFormData :: "jsstring + form_data"
  reqJson :: "jsstring + json_body"

record upload_resp =
  upStatus :: int
  upHeaders :: "(jsstring \<times> jsstring) list"
  upBody :: "int list"

text \<open>What the callback of \<open>withTemp\<close> returns: \<open>type\<close> is \<open>'stream'\<close>, \<open>'upload'\<close> or
  \<open>'memory'\<close>.\<close>

datatype handler_result =
    StreamResult jsstring jsstring FileTemp
  | UploadResult upload_resp
  | MemoryResult jsstring

subsection \<open>Helpers\<close>

definition toLowerCase :: "jsstring \<Rightarrow> jsstring" where
  "toLowerCase s = map (\<lambda>c. if 65 \<le> c \<and> c \<le> 90 then c + 32 else c) s"

definition allowed :: "jsstring list" where
  "allowed = [js ''content-type'', js ''content-length'', js ''location'', js ''etag'',
              js ''last-modified'', js ''content-disposition'', js ''cache-control'']"

text \<open>Lines 173--177: only the allow-listed headers of the upstream response are kept.\<close>

definition forwardedHeaders :: "(jsstring \<times> jsstring) list \<Rightarrow> (jsstring \<times> jsstring) list" where
  "forwardedHeaders hs = filter (\<lambda>(key, v). toLowerCase key \<in> set allowed) hs"

definition contentTypeOf :: "jsstring \<Rightarrow> jsstring" where
  "contentTypeOf to =
     (if to = js ''pdf'' then js ''application/pdf'' else js ''application/octet-stream'')"

text \<open>Lines 399--403.\<close>

definition contentTypeForConverted :: "jsstring \<Rightarrow> jsstring" where
  "contentTypeForConverted toStr =
     (if toStr = js ''pdf'' then js ''application/pdf''
      else if toStr = js ''docx''
      then js ''application/vnd.openxmlformats-officedocument.wordprocessingml.document''
      else js ''application/octet-stream'')"

text \<open>Lines 267--268: the part of the path after its last slash.\<close>

definition lastSegment :: "jsstring \<Rightarrow> jsstring" where
  "lastSegment p = rev (takeWhile (\<lambda>c. c \<noteq> 47) (rev p))"

text \<open>Lines 79--84, at its first call: the workspace is removed if there is one.\<close>

definition cleanTempNow :: "env \<Rightarrow> FileTemp option \<Rightarrow> world \<Rightarrow> world" where
  "cleanTempNow e tempForCleanup w =
     (case tempForCleanup of Some t \<Rightarrow> cleanFileOnTmpFolder e t w | None \<Rightarrow> w)"

text \<open>\<open>tempForCleanup\<close> is assigned when the callback of \<open>withTemp\<close> starts, that is when
  the workspace could be created.\<close>

definition tempForCleanupOf :: "env \<Rightarrow> world \<Rightarrow> FileTemp option" where
  "tempForCleanupOf e w = (case fst (newFileTemp e w) of Inr t \<Rightarrow> Some t | Inl err \<Rightarrow> None)"

subsection \<open>The steps inside \<open>withTemp\<close>\<close>

text \<open>Lines 122--145 and 280--303: the conversion, under its own deadline, on the workspace
  of the request, which is kept.\<close>

definition conversionStep ::
  "env \<Rightarrow> FileTemp \<Rightarrow> jsstring \<Rightarrow> jsstring \<Rightarrow> jsstring \<Rightarrow> world \<Rightarrow> (error + ConvertResult) \<times> world" where
  "conversionStep e t inputPath from to w =
     (case withTimeout
             (\<lambda>st w0. convertFile e (Inr inputPath) (stripLeadingDot from) (stripLeadingDot to)
                         \<lparr> optTemp = Some t, optKeepTemp = True,
                           optTimeoutMs = Some DEFAULT_TIMEOUT_MS, optSignal = True,
                           optVerbose = False \<rparr> w0)
             (Some DEFAULT_TIMEOUT_MS) None (conversionEvents e) w of
        (Inl err, w1) \<Rightarrow> (Inl (thrown err), w1)
      | (Inr r, w1) \<Rightarrow> (Inr r, w1))"

text \<open>Lines 157--180 and 316--338: the \<open>PUT\<close> of the output file.  The headers are built
  before \<open>fetch\<close> is called.\<close>

definition uploadStep ::
  "env \<Rightarrow> jsstring \<Rightarrow> jsstring \<Rightarrow> jsstring \<Rightarrow> jsstring \<Rightarrow> world
     \<Rightarrow> (error wt_error + upload_resp) \<times> world" where
  "uploadStep e outputPath url originalName to w =
     withTimeout
       (\<lambda>st w0.
          case buildContentDispositionAttachment originalName to 100 of
            Inl err \<Rightarrow> (Inl err, w0)
          | Inr disposition \<Rightarrow>
              (case put e \<lparr> putUrl = url, putContentType = contentTypeOf to,
                            putContentDisposition = disposition,
                            putBody = FileBody outputPath \<rparr> st of
                 PutRejected msg \<Rightarrow> (Inl (RuntimeError msg), emit UploadStarted w0)
               | PutResponse status hs bytes \<Rightarrow>
                   (Inr \<lparr> upStatus = status, upHeaders = forwardedHeaders hs, upBody = bytes \<rparr>,
                    emit UploadStarted w0)))
       (Some DEFAULT_TIMEOUT_MS) None (uploadEvents e) w"

text \<open>Lines 147--188 and 306--344: what the callback does with the result of the
  conversion.\<close>

definition dispatchInside ::
  "env \<Rightarrow> FileTemp \<Rightarrow> ConvertResult \<Rightarrow> bool \<Rightarrow> jsstring option \<Rightarrow> jsstring \<Rightarrow> jsstring \<Rightarrow> world
     \<Rightarrow> (error + handler_result) \<times> world" where
  "dispatchInside e t result keepTempForStreaming finalUploadUrl originalName to w =
     (case result of
        OutputPath outputPath \<Rightarrow>
          if keepTempForStreaming then (Inr (StreamResult outputPath originalName t), w)
          else
            (case uploadStep e outputPath
                    (case finalUploadUrl of Some url \<Rightarrow> url | None \<Rightarrow> js ''undefined'')
                    originalName to w of
               (Inl err, w1) \<Rightarrow> (Inl (thrown err), w1)
             | (Inr u, w1) \<Rightarrow> (Inr (UploadResult u), w1))
      | _ \<Rightarrow> (Inr (MemoryResult originalName), w))"

text \<open>The conversion followed by the dispatch; the callback keeps \<open>result\<close> and
  \<open>originalName\<close> in variables of the handler.\<close>

definition convertAndDispatch ::
  "env \<Rightarrow> FileTemp \<Rightarrow> jsstring \<Rightarrow> jsstring \<Rightarrow> jsstring \<Rightarrow> bool \<Rightarrow> jsstring option \<Rightarrow> jsstring \<Rightarrow> world
     \<Rightarrow> (error + handler_result \<times> ConvertResult \<times> jsstring) \<times> world" where
  "convertAndDispatch e t inputPath from to keepTempForStreaming finalUploadUrl originalName w =
     (case conversionStep e t inputPath from to w of
        (Inl err, w1) \<Rightarrow> (Inl err, w1)
      | (Inr result, w1) \<Rightarrow>
          (case dispatchInside e t result keepTempForStreaming finalUploadUrl originalName to w1 of
             (Inl err, w2) \<Rightarrow> (Inl err, w2)
           | (Inr hr, w2) \<Rightarrow> (Inr (hr, result, originalName), w2)))"

text \<open>Lines 112--189: the callback of the multipart branch.  The upload is streamed into the
  workspace first.\<close>

definition multipartCallback ::
  "env \<Rightarrow> upload_file \<Rightarrow> jsstring \<Rightarrow> jsstring \<Rightarrow> bool \<Rightarrow> jsstring option \<Rightarrow> FileTemp \<Rightarrow> world
     \<Rightarrow> (error + handler_result \<times> ConvertResult \<times> jsstring) \<times> world" where
  "multipartCallback e file from to keepTempForStreaming finalUploadUrl t w =
     (let inputPath = filePath t @ js ''.'' @ from
      in case streamWebToFile (if fileHasStream file then Some (fileBytes file) else None)
                inputPath (uploadStreamError e) (emit StagingStarted w) of
           (Inl err, w1) \<Rightarrow> (Inl err, w1)
         | (Inr u, w1) \<Rightarrow>
             (let originalName = (if fileName file \<noteq> [] then fileName file
                                  else js ''converted.'' @ to)
              in convertAndDispatch e t inputPath from to keepTempForStreaming finalUploadUrl
                   originalName w1))"

text \<open>Lines 252--263: the download, under a deadline.\<close>

definition downloadOp ::
  "env \<Rightarrow> jsstring \<Rightarrow> jsstring \<Rightarrow> abort_status \<Rightarrow> world \<Rightarrow> (error + unit) \<times> world" where
  "downloadOp e downloadUrl inputPath st w =
     (let w1 = emit StagingStarted w
      in case download e downloadUrl st of
           FetchRejected msg \<Rightarrow> (Inl (RuntimeError msg), w1)
         | Fetched status statusText bodyOpt streamError \<Rightarrow>
             if \<not> (200 \<le> status \<and> status \<le> 299) then (Inl (FetchNotOk status statusText), w1)
             else
               (case bodyOpt of
                  None \<Rightarrow> (Inl NoBody, w1)
                | Some bytes \<Rightarrow> streamWebToFile (Some bytes) inputPath streamError w1))"

text \<open>Lines 247--345: the callback of the JSON branch.  The check for the upload URL comes
  after the download.\<close>

definition jsonCallback ::
  "env \<Rightarrow> jsstring \<Rightarrow> jsstring \<Rightarrow> jsstring \<Rightarrow> bool \<Rightarrow> jsstring option \<Rightarrow> FileTemp \<Rightarrow> world
     \<Rightarrow> (error + handler_result \<times> ConvertResult \<times> jsstring) \<times> world" where
  "jsonCallback e downloadUrl from to keepTempForStreaming finalUploadUrl t w =
     (let inputPath = filePath t @ js ''.'' @ from
      in case withTimeout (downloadOp e downloadUrl inputPath)
                (Some DEFAULT_TIMEOUT_MS) None (downloadEvents e) w of
           (Inl err, w1) \<Rightarrow> (Inl (thrown err), w1)
         | (Inr u, w1) \<Rightarrow>
             (let base = lastSegment (urlPathname e downloadUrl);
                  originalName = (if base \<noteq> [] then base else js ''downloaded.'' @ to)
              in if finalUploadUrl = None \<and> \<not> keepTempForStreaming
                 then (Inl MissingUploadUrl, w1)
                 else convertAndDispatch e t inputPath from to keepTempForStreaming
                        finalUploadUrl originalName w1))"

subsection \<open>After \<open>withTemp\<close>\<close>

text \<open>
  A handler step returns, with the world, an error (thrown to the enclosing \<open>catch\<close>) or a
  response together with the workspace whose removal is left to the end of the response
  stream, if any.
\<close>

type_synonym outcome = "error + response \<times> FileTemp option"

text \<open>Lines 191--215 and 348--373; \<open>None\<close> when neither \<open>if\<close> applies and control leaves the
  \<open>try\<close> block.\<close>

definition afterWithTemp ::
  "handler_result \<Rightarrow> jsstring \<Rightarrow> jsstring \<Rightarrow> world
     \<Rightarrow> (error + (response \<times> FileTemp option) option) \<times> world" where
  "afterWithTemp hr originalName to w =
     (case hr of
        StreamResult outputPath name t \<Rightarrow>
          if outputPath \<noteq> [] then
            (let w1 = emit StreamOpened w
             in case buildContentDispositionAttachment originalName to 100 of
                  Inl err \<Rightarrow> (Inl err, w1)
                | Inr disposition \<Rightarrow>
                    (Inr (Some (\<lparr> rStatus = 200,
                                   rHeaders = [(js ''Content-Type'', contentTypeOf to),
                                               (js ''Content-Disposition'', disposition)],
                                   rBody = FileBody outputPath \<rparr>, Some t)), w1))
          else (Inr None, w)
      | UploadResult u \<Rightarrow>
          (Inr (Some (\<lparr> rStatus = upStatus u, rHeaders = upHeaders u,
                         rBody = BytesBody (upBody u) \<rparr>, None)), w)
      | MemoryResult name \<Rightarrow> (Inr None, w))"

text \<open>Lines 443--459 and 524--536: the upload of the code after the branches.\<close>

definition tailUpload ::
  "env \<Rightarrow> body \<Rightarrow> jsstring \<Rightarrow> jsstring \<Rightarrow> jsstring \<Rightarrow> world
     \<Rightarrow> (error wt_error + upload_resp) \<times> world" where
  "tailUpload e content url originalName toStr w =
     withTimeout
       (\<lambda>st w0.
          case buildContentDispositionAttachment originalName toStr 100 of
            Inl err \<Rightarrow> (Inl err, w0)
          | Inr disposition \<Rightarrow>
              (case put e \<lparr> putUrl = url, putContentType = contentTypeForConverted toStr,
                            putContentDisposition = disposition, putBody = content \<rparr> st of
                 PutRejected msg \<Rightarrow> (Inl (RuntimeError msg), emit UploadStarted w0)
               | PutResponse status hs bytes \<Rightarrow>
                   (Inr \<lparr> upStatus = status, upHeaders = forwardedHeaders hs, upBody = bytes \<rparr>,
                    emit UploadStarted w0)))
       (Some DEFAULT_TIMEOUT_MS) None (uploadEvents e) w"

definition missingUploadUrl :: jsstring where
  "missingUploadUrl =
     js ''When not using ?download you must provide uploadUrl as a query parameter, form field, or in the JSON body''"

text \<open>
  Lines 385--562, the code after the two branches.  It runs when the callback returned
  \<open>'memory'\<close> or a stream result with an empty path; \<open>conversionDone\<close> is set then.
\<close>

definition tail ::
  "env \<Rightarrow> bool \<Rightarrow> jsstring option \<Rightarrow> jsstring \<Rightarrow> jsstring \<Rightarrow> ConvertResult \<Rightarrow> FileTemp option \<Rightarrow> world
     \<Rightarrow> outcome \<times> world" where
  "tail e wantsDownload finalUploadUrl toStr originalName result tempForCleanup w =
     (case result of
        Output out err \<Rightarrow>
          (case orUndefined err of
             Some details \<Rightarrow> (Inr (errorResponse 500 (js ''Conversion error'') details, None), w)
           | None \<Rightarrow> (Inl (RuntimeError (js ''undefined is not an object'')), w))
      | OutputPath outputPath \<Rightarrow>
          if wantsDownload then
            (let w1 = emit StreamOpened w
             in case buildContentDispositionAttachment originalName toStr 100 of
                  Inl err \<Rightarrow> (Inl err, w1)
                | Inr disposition \<Rightarrow>
                    (Inr (\<lparr> rStatus = 200,
                             rHeaders = [(js ''Content-Type'', contentTypeForConverted toStr),
                                         (js ''Content-Disposition'', disposition)],
                             rBody = FileBody outputPath \<rparr>, tempForCleanup), w1))
          else
            (case finalUploadUrl of
               None \<Rightarrow> (Inr (badRequest missingUploadUrl, None), cleanTempNow e tempForCleanup w)
             | Some url \<Rightarrow>
                 (case tailUpload e (FileBody outputPath) url originalName toStr w of
                    (Inl err, w1) \<Rightarrow>
                      (Inr (errorResponse 502 (js ''Failed to upload converted file'')
                              (message (thrown err)), None),
                       cleanTempNow e tempForCleanup w1)
                  | (Inr u, w1) \<Rightarrow>
                      (Inr (\<lparr> rStatus = upStatus u, rHeaders = upHeaders u,
                               rBody = BytesBody (upBody u) \<rparr>, None),
                       cleanTempNow e tempForCleanup w1)))
      | ConvertedFile converted \<Rightarrow>
          if wantsDownload then
            (case buildContentDispositionAttachment originalName toStr 100 of
               Inl err \<Rightarrow> (Inl err, w)
             | Inr disposition \<Rightarrow>
                 (Inr (\<lparr> rStatus = 200,
                          rHeaders = [(js ''Content-Type'', js ''application/octet-stream''),
                                      (js ''Content-Disposition'', disposition)],
                          rBody = BytesBody converted \<rparr>, None), w))
          else
            (case finalUploadUrl of
               None \<Rightarrow> (Inr (badRequest missingUploadUrl, None), w)
             | Some url \<Rightarrow>
                 (case tailUpload e (BytesBody converted) url originalName toStr w of
                    (Inl err, w1) \<Rightarrow>
                      (Inr (errorResponse 502 (js ''Failed to upload converted file'')
                              (message (thrown err)), None), w1)
                  | (Inr u, w1) \<Rightarrow>
                      (Inr (\<lparr> rStatus = upStatus u, rHeaders = upHeaders u,
                               rBody = BytesBody (upBody u) \<rparr>, None), w1))))"

subsection \<open>The two branches and the handler\<close>

text \<open>
  Lines 112--215 and 247--373 have the same form in both branches: \<open>withTemp\<close> runs the
  callback on a new workspace, which is kept exactly when the response is to be streamed;
  the result of the callback becomes the response; an error of either step goes to the
  \<open>catch\<close> of the branch, here \<open>caught\<close>; and when neither \<open>if\<close> on the result applies,
  control reaches the code after the branches.
\<close>

definition runPipeline ::
  "env \<Rightarrow> (FileTemp \<Rightarrow> world \<Rightarrow> (error + handler_result \<times> ConvertResult \<times> jsstring) \<times> world)
     \<Rightarrow> bool \<Rightarrow> jsstring option \<Rightarrow> jsstring \<Rightarrow> (error \<Rightarrow> world \<Rightarrow> outcome \<times> world) \<Rightarrow> world
     \<Rightarrow> outcome \<times> world" where
  "runPipeline e callback keepTempForStreaming finalUploadUrl to caught w =
     (case withTemp e None callback keepTempForStreaming w of
        (Inl err, w1) \<Rightarrow> caught err w1
      | (Inr (hr, result, originalName), w1) \<Rightarrow>
          (case afterWithTemp hr originalName to w1 of
             (Inl err, w2) \<Rightarrow> caught err w2
           | (Inr (Some out), w2) \<Rightarrow> (Inr out, w2)
           | (Inr None, w2) \<Rightarrow>
               tail e keepTempForStreaming finalUploadUrl to originalName result
                 (tempForCleanupOf e w) w2))"

text \<open>Lines 216--220: the \<open>catch\<close> of the multipart branch removes the workspace.\<close>

definition multipartCaught :: "env \<Rightarrow> world \<Rightarrow> error \<Rightarrow> world \<Rightarrow> outcome \<times> world" where
  "multipartCaught e w err w' =
     (Inr (errorResponse 400 (js ''Failed to stream uploaded file to temp'') (message err), None),
      cleanTempNow e (tempForCleanupOf e w) w')"

text \<open>Lines 375--378: the \<open>catch\<close> of the JSON branch only builds the response.\<close>

definition jsonCaught :: "error \<Rightarrow> world \<Rightarrow> outcome \<times> world" where
  "jsonCaught err w' =
     (Inr (errorResponse 400 (js ''Failed to fetch/stream downloadUrl'') (message err), None), w')"

text \<open>Lines 86--220.\<close>

definition multipartBranch :: "env \<Rightarrow> request \<Rightarrow> world \<Rightarrow> outcome \<times> world" where
  "multipartBranch e req w =
     (case reqFormData req of
        Inl msg \<Rightarrow> (Inl (RuntimeError msg), w)
      | Inr form \<Rightarrow>
          (case formFile form of
             None \<Rightarrow> (Inr (badRequest (js ''Missing file field''), None), w)
           | Some file \<Rightarrow>
               (case (orUndefined (formFrom form), orUndefined (formTo form)) of
                  (Some from, Some to) \<Rightarrow>
                    if \<not> fileHasStream file
                    then (Inr (badRequest (js ''Uploaded file has no stream''), None),
                          cleanTempNow e None w)
                    else
                      (let keepTempForStreaming = hasDownload req;
                           finalUploadUrl = orElse (queryUploadUrl req)
                                              (orUndefined (formUploadUrl form))
                       in if finalUploadUrl = None \<and> \<not> keepTempForStreaming
                          then (Inr (badRequest (js ''When not using ?download you must provide uploadUrl as a query parameter or form field''), None),
                                cleanTempNow e None w)
                          else runPipeline e
                                 (multipartCallback e file from to keepTempForStreaming
                                    finalUploadUrl)
                                 keepTempForStreaming finalUploadUrl to (multipartCaught e w) w)
                | _ \<Rightarrow> (Inr (badRequest (js ''Missing from or to fields''), None), w))))"

text \<open>Lines 221--378.\<close>

definition jsonBranch :: "env \<Rightarrow> request \<Rightarrow> world \<Rightarrow> outcome \<times> world" where
  "jsonBranch e req w =
     (case reqJson req of
        Inl msg \<Rightarrow> (Inl (RuntimeError msg), w)
      | Inr InvalidJson \<Rightarrow> (Inr (badRequest (js ''Invalid JSON body''), None), w)
      | Inr NotAnObject \<Rightarrow> (Inr (badRequest (js ''Invalid JSON body''), None), w)
      | Inr (JsonObject downloadUrlField fromField toField uploadUrlFromJson) \<Rightarrow>
          (case orUndefined downloadUrlField of
             None \<Rightarrow> (Inr (badRequest (js ''Missing downloadUrl in JSON body''), None), w)
           | Some downloadUrl \<Rightarrow>
               (case (orUndefined fromField, orUndefined toField) of
                  (Some from, Some to) \<Rightarrow>
                    (let keepTempForStreaming = hasDownload req;
                         finalUploadUrl = orElse (queryUploadUrl req)
                                            (orUndefined uploadUrlFromJson)
                     in runPipeline e
                          (jsonCallback e downloadUrl from to keepTempForStreaming finalUploadUrl)
                          keepTempForStreaming finalUploadUrl to jsonCaught w)
                | _ \<Rightarrow> (Inr (badRequest (js ''Missing from or to fields''), None), w))))"

definition notFound :: response where
  "notFound = \<lparr> rStatus = 404, rHeaders = [], rBody = TextBody (js ''Not Found'') \<rparr>"

text \<open>Lines 41--566: the \<open>fetch\<close> handler.  An error that reaches the outermost \<open>catch\<close>
  becomes a response with status 500 and the message as its body.\<close>

definition fetchHandler :: "env \<Rightarrow> request \<Rightarrow> world \<Rightarrow> (response \<times> FileTemp option) \<times> world" where
  "fetchHandler e req w =
     (if reqMethod req = js ''GET'' \<and> reqPathname req = js ''/metrics'' then ((notFound, None), w)
      else if reqMethod req \<noteq> js ''POST'' \<or> reqPathname req \<noteq> js ''/process''
      then ((notFound, None), w)
      else
        (case (if includes_str (reqContentType req) (js ''multipart/form-data'')
               then multipartBranch e req w
               else if includes_str (reqContentType req) (js ''application/json'') \<or>
                       includes_str (reqContentType req) (js ''text/json'')
               then jsonBranch e req w
               else (Inr (badRequest (js ''Content-Type must be multipart/form-data or application/json''), None), w)) of
           (Inl err, w1) \<Rightarrow>
             ((\<lparr> rStatus = 500, rHeaders = [], rBody = TextBody (message err) \<rparr>, None), w1)
         | (Inr out, w1) \<Rightarrow> (out, w1)))"

text \<open>Lines 197--198, 354--355 and 411--412: when the read stream of the response ends or
  fails, the workspace is removed.\<close>

definition finishStream :: "env \<Rightarrow> FileTemp option \<Rightarrow> world \<Rightarrow> world" where
  "finishStream e deferred w =
     (case deferred of
        None \<Rightarrow> w
      | Some t \<Rightarrow>
          (case streamEnd e of
             StreamEnds \<Rightarrow> cleanFileOnTmpFolder e t w
           | StreamErrors \<Rightarrow> cleanFileOnTmpFolder e t w))"

text \<open>A request from its arrival to the end of its response.\<close>

definition requestLifecycle :: "env \<Rightarrow> request \<Rightarrow> world \<Rightarrow> response \<times> world" where
  "requestLifecycle e req w =
     (case fetchHandler e req w of ((resp, deferred), w1) \<Rightarrow> (resp, finishStream e deferred w1))"

text \<open>\<open>precedes a b tr\<close>: in the trace, no \<open>b\<close> comes before the first \<open>a\<close>.\<close>

fun precedes :: "event \<Rightarrow> event \<Rightarrow> event list \<Rightarrow> bool" where
  "precedes a b [] = True"
| "precedes a b (x # xs) = (if x = a then True else if x = b then False else precedes a b xs)"

section \<open>Shapes of runs\<close>

text \<open>
  The predicates in which the runs of the handler are described.  The conversion leaves one
  of two traces: the slot taken and given back without a process, when the converter could
  not be started, or the slot taken, the process started and exited, and the slot given back.
\<close>

definition conversionTraces :: "event list list" where
  "conversionTraces =
     [[SlotAcquired, SlotReleased],
      [SlotAcquired, ConverterSpawned, ConverterExited, SlotReleased]]"

text \<open>The upload target answers every \<open>PUT\<close> with the same response; and what the code
  keeps of such a response.\<close>

definition answers :: "env \<Rightarrow> int \<Rightarrow> (jsstring \<times> jsstring) list \<Rightarrow> int list \<Rightarrow> bool" where
  "answers e s hs b \<longleftrightarrow> (\<forall>pr st. put e pr st = PutResponse s hs b)"

definition forwarded :: "int \<Rightarrow> (jsstring \<times> jsstring) list \<Rightarrow> int list \<Rightarrow> upload_resp" where
  "forwarded s hs b = \<lparr> upStatus = s, upHeaders = forwardedHeaders hs, upBody = b \<rparr>"

text \<open>
  What the conversion and the dispatch inside the callback leave, as result \<open>r\<close> and trace
  \<open>x\<close>: the trace of the conversion, followed by the start of the upload or by nothing.  The
  upload is started only when the workspace is not kept and the conversion gave a file, and
  it succeeds when the target answers.  A successful result is a stream result with a path,
  for a kept workspace, or an upload result, after an upload.
\<close>

definition dispatched ::
  "env \<Rightarrow> FileTemp \<Rightarrow> bool \<Rightarrow> (error + handler_result \<times> ConvertResult \<times> jsstring) \<Rightarrow> event list
     \<Rightarrow> bool" where
  "dispatched e t keep r x \<longleftrightarrow>
     (\<exists>c \<in> set conversionTraces. \<exists>u.
        x = c @ u \<and> (u = [] \<or> u = [UploadStarted]) \<and>
        (u = [UploadStarted] \<longrightarrow>
           \<not> keep \<and> c = [SlotAcquired, ConverterSpawned, ConverterExited, SlotReleased] \<and>
           (\<forall>s hs b. answers e s hs b \<longrightarrow>
              (\<exists>res name. r = Inr (UploadResult (forwarded s hs b), res, name)))) \<and>
        (\<forall>hr res name. r = Inr (hr, res, name) \<longrightarrow>
           c = [SlotAcquired, ConverterSpawned, ConverterExited, SlotReleased] \<and>
           ((\<exists>p. p \<noteq> [] \<and> hr = StreamResult p name t \<and> keep \<and> u = []) \<or>
            (\<exists>up. hr = UploadResult up \<and> \<not> keep \<and> u = [UploadStarted]))))"

text \<open>A callback of \<open>withTemp\<close> first starts to stage the input; it then either fails
  before the conversion or goes on as described by \<open>dispatched\<close>.\<close>

definition staged ::
  "env \<Rightarrow> bool
     \<Rightarrow> (FileTemp \<Rightarrow> world \<Rightarrow> (error + handler_result \<times> ConvertResult \<times> jsstring) \<times> world)
     \<Rightarrow> bool" where
  "staged e keep callback \<longleftrightarrow>
     (\<forall>t w. \<exists>x.
        trace (snd (callback t w)) = trace w @ StagingStarted # x \<and>
        dirs (snd (callback t w)) = dirs w \<and>
        ((x = [] \<and> (\<exists>err. fst (callback t w) = Inl err)) \<or>
         dispatched e t keep (fst (callback t w)) x))"

text \<open>A \<open>catch\<close> of a branch answers, and does no more than try to remove the workspace.\<close>

definition catches :: "(error \<Rightarrow> world \<Rightarrow> outcome \<times> world) \<Rightarrow> bool" where
  "catches caught \<longleftrightarrow>
     (\<forall>err w. (\<exists>resp. fst (caught err w) = Inr (resp, None)) \<and>
              (\<exists>k. trace (snd (caught err w)) = trace w @ k \<and> set k \<subseteq> {CleanupAttempted}))"

text \<open>
  The traces of a request: without a conversion, only the creation of the workspace, the
  staging and attempts to remove the workspace occur; with one, the workspace is created,
  the staging starts, the conversion runs, and only after it come the start of an upload, the
  opening of the response stream and the attempts to remove the workspace.
\<close>

definition pipelineTrace :: "event list \<Rightarrow> bool" where
  "pipelineTrace tr \<longleftrightarrow>
     set tr \<subseteq> {WorkspaceCreated, StagingStarted, CleanupAttempted} \<or>
     (\<exists>c \<in> set conversionTraces. \<exists>post.
        tr = WorkspaceCreated # StagingStarted # c @ post \<and>
        set post \<subseteq> {UploadStarted, StreamOpened, CleanupAttempted})"

text \<open>
  What holds of the response and the world at the end of a request: the trace is one of a
  request; and if an upload was started and the target answers, the response is the
  target's, the trace is the one of a successful forward upload, and the workspace is gone
  if \<open>rm\<close> works.
\<close>

definition settled :: "env \<Rightarrow> response \<Rightarrow> world \<Rightarrow> bool" where
  "settled e resp wEnd \<longleftrightarrow>
     pipelineTrace (trace wEnd) \<and>
     (UploadStarted \<in> set (trace wEnd) \<longrightarrow>
        (\<forall>s hs b. answers e s hs b \<longrightarrow>
           resp = \<lparr> rStatus = s, rHeaders = forwardedHeaders hs, rBody = BytesBody b \<rparr> \<and>
           trace wEnd = [WorkspaceCreated, StagingStarted, SlotAcquired, ConverterSpawned,
                       ConverterExited, SlotReleased, UploadStarted, CleanupAttempted] \<and>
           (rmOk e \<longrightarrow> dirs wEnd = [])))"

section \<open>Example runs\<close>

text \<open>
  Concrete worlds, environments and requests, on which the theorems below are instantiated.
  \<open>soffice\<close> is a converter that warns on its error stream, exits with code 0 and writes
  \<open><outdir>/file.<ext>\<close>; \<open>failingSoffice\<close> exits with code 1 and writes nothing;
  \<open>unreadableSoffice\<close> leaves an output file that cannot be read.
\<close>

definition emptyWorld :: world where
  "emptyWorld = \<lparr> dirs = [], files = (\<lambda>p. None), trace = [] \<rparr>"

definition soffice :: "jsstring list \<Rightarrow> abort_status \<Rightarrow> child_outcome" where
  "soffice args st =
     (case args of
        [headless, convertTo, toExt, inputPath, outdirFlag, outdir] \<Rightarrow>
          Closed [js ''convert ''] [js ''javaldx: Could not find a Java Runtime Environment!'']
            (Some 0) None [(join outdir (js ''file.'' @ toExt), Readable [37, 80, 68, 70])]
      | _ \<Rightarrow> SpawnError (js ''bad arguments''))"

definition quietEnv :: env where
  "quietEnv =
     \<lparr> fastTmpDir = None, accessible = (\<lambda>p. False), osTmpdir = js ''/tmp'',
       mkdtemp = (\<lambda>prefix. Some (js ''Ab12Cd'')), rmOk = True,
       writeFileError = None, signalAborted = False, childEvents = [], child = soffice,
       uploadStreamError = None, urlPathname = (\<lambda>url. js ''/docs/report.docx''),
       downloadEvents = [],
       download = (\<lambda>url st. Fetched 200 (js ''OK'') (Some [80, 75, 3, 4]) None),
       conversionEvents = [], uploadEvents = [],
       put = (\<lambda>req st. PutResponse 200 [] []), streamEnd = StreamEnds \<rparr>"

definition bufferOptions :: ConvertOptions where
  "bufferOptions = \<lparr> optTemp = None, optKeepTemp = False, optTimeoutMs = Some 1000,
                     optSignal = False, optVerbose = False \<rparr>"


definition failingSoffice :: "jsstring list \<Rightarrow> abort_status \<Rightarrow> child_outcome" where
  "failingSoffice args st =
     Closed [js ''convert ''] [js ''Error: source file could not be loaded''] (Some 1) None []"

definition unreadableSoffice :: "jsstring list \<Rightarrow> abort_status \<Rightarrow> child_outcome" where
  "unreadableSoffice args st =
     (case args of
        [headless, convertTo, toExt, inputPath, outdirFlag, outdir] \<Rightarrow>
          Closed [] [] (Some 0) None
            [(join outdir (js ''file.'' @ toExt), Unreadable (js ''EACCES: permission denied''))]
      | _ \<Rightarrow> SpawnError (js ''bad arguments''))"

text \<open>
  Two requests for a conversion from \<open>docx\<close> to \<open>pdf\<close> with an upload URL, one with a JSON
  body and one with a form; the JSON request without its upload URL; an upload target that
  answers with status 500; a download source that answers with status 404; the form
  request without its upload URL; and an upload from the caller that breaks off.
\<close>

definition jsonRequest :: request where
  "jsonRequest =
     \<lparr> reqMethod = js ''POST'', reqPathname = js ''/process'',
       reqContentType = js ''application/json'', hasDownload = False, queryUploadUrl = None,
       reqFormData = Inl (js ''not a form''),
       reqJson = Inr (JsonObject (Some (js ''http://files.example/docs/report.docx''))
                        (Some (js ''docx'')) (Some (js ''pdf''))
                        (Some (js ''http://store.example/out/report.pdf''))) \<rparr>"

definition jsonRequestWithoutUploadUrl :: request where
  "jsonRequestWithoutUploadUrl =
     jsonRequest\<lparr> reqJson := Inr (JsonObject (Some (js ''http://files.example/docs/report.docx''))
                                     (Some (js ''docx'')) (Some (js ''pdf'')) None) \<rparr>"

definition multipartRequest :: request where
  "multipartRequest =
     \<lparr> reqMethod = js ''POST'', reqPathname = js ''/process'',
       reqContentType = js ''multipart/form-data; boundary=x'', hasDownload = False,
       queryUploadUrl = None,
       reqFormData = Inr \<lparr> formFile = Some \<lparr> fileName = js ''report.docx'',
                                               fileBytes = [80, 75, 3, 4],
                                               fileHasStream = True \<rparr>,
                            formFrom = Some (js ''docx''), formTo = Some (js ''pdf''),
                            formUploadUrl = Some (js ''http://store.example/out/report.pdf'') \<rparr>,
       reqJson = Inl (js ''not JSON'') \<rparr>"


definition sourceMissing :: env where
  "sourceMissing =
     quietEnv\<lparr> download := (\<lambda>url st. Fetched 404 (js ''Not Found'') (Some []) None) \<rparr>"

definition multipartRequestWithoutUploadUrl :: request where
  "multipartRequestWithoutUploadUrl =
     multipartRequest
       \<lparr> reqFormData := Inr \<lparr> formFile = Some \<lparr> fileName = js ''report.docx'',
                                                  fileBytes = [80, 75, 3, 4],
                                                  fileHasStream = True \<rparr>,
                               formFrom = Some (js ''docx''), formTo = Some (js ''pdf''),
                               formUploadUrl = None \<rparr> \<rparr>"

definition uploadBreaks :: env where
  "uploadBreaks = quietEnv\<lparr> uploadStreamError := Some (js ''aborted'') \<rparr>"

section \<open>Properties of the deadline scope\<close>

lemma wt_step_timedOut_mono: "timedOut s \<Longrightarrow> timedOut (wt_step s e)"
  by (cases e) simp_all

lemma wt_steps_timedOut_mono: "timedOut s \<Longrightarrow> timedOut (foldl wt_step s es)"
  by (induction es arbitrary: s) (simp_all add: wt_step_timedOut_mono)

lemma wt_steps_timer_fires:
  "timer s \<Longrightarrow> TimerFires \<in> set es \<Longrightarrow> timedOut (foldl wt_step s es)"
proof (induction es arbitrary: s)
  case Nil
  then show ?case by simp
next
  case (Cons e es)
  show ?case
  proof (cases e)
    case TimerFires
    with Cons.prems(1) have "timedOut (wt_step s e)" by simp
    then show ?thesis by (simp add: wt_steps_timedOut_mono)
  next
    case ParentAborts
    with Cons.prems have "timer (wt_step s e)" and "TimerFires \<in> set es" by auto
    then show ?thesis using Cons.IH by simp
  qed
qed

lemma wt_steps_no_timer_event:
  "TimerFires \<notin> set es \<Longrightarrow> timedOut (foldl wt_step s es) = timedOut s"
proof (induction es arbitrary: s)
  case Nil
  then show ?case by simp
next
  case (Cons e es)
  then have "e = ParentAborts" by (cases e) auto
  with Cons show ?case by simp
qed

lemma wt_steps_unarmed:
  "\<not> timer s \<Longrightarrow> timedOut (foldl wt_step s es) = timedOut s"
proof (induction es arbitrary: s)
  case Nil
  then show ?case by simp
next
  case (Cons e es)
  then show ?case by (cases e) simp_all
qed

lemma wt_step_aborted_stays: "aborted s \<noteq> NotAborted \<Longrightarrow> aborted (wt_step s e) \<noteq> NotAborted"
  by (cases e; cases "aborted s") simp_all

lemma wt_steps_aborted_stays:
  "aborted s \<noteq> NotAborted \<Longrightarrow> aborted (foldl wt_step s es) \<noteq> NotAborted"
  by (induction es arbitrary: s) (simp_all add: wt_step_aborted_stays)

lemma wt_step_listening: "listening (wt_step s e) = listening s"
  by (cases e) simp_all

lemma wt_steps_parent_aborts:
  "listening s \<Longrightarrow> ParentAborts \<in> set es \<Longrightarrow> aborted (foldl wt_step s es) \<noteq> NotAborted"
proof (induction es arbitrary: s)
  case Nil
  then show ?case by simp
next
  case (Cons e es)
  show ?case
  proof (cases e)
    case ParentAborts
    with Cons.prems(1) have "aborted (wt_step s e) \<noteq> NotAborted"
      by (cases "aborted s") simp_all
    then show ?thesis by (simp add: wt_steps_aborted_stays)
  next
    case TimerFires
    with Cons.prems have "listening (wt_step s e)" and "ParentAborts \<in> set es"
      by (auto simp: wt_step_listening)
    then show ?thesis using Cons.IH by simp
  qed
qed

lemma timedOut_wt_run_iff:
  "timedOut (wt_run ms parentSignal events) \<longleftrightarrow>
     (\<exists>m. ms = Some m \<and> 0 < m) \<and> TimerFires \<in> set events"
proof (cases "timer (wt_init ms parentSignal)")
  case True
  then have armed: "\<exists>m. ms = Some m \<and> 0 < m"
    by (auto simp: wt_init_def split: option.splits)
  show ?thesis
  proof (cases "TimerFires \<in> set events")
    case True
    with \<open>timer (wt_init ms parentSignal)\<close> armed show ?thesis
      by (simp add: wt_run_def wt_steps_timer_fires)
  next
    case False
    then show ?thesis
      by (simp add: wt_run_def wt_steps_no_timer_event) (simp add: wt_init_def)
  qed
next
  case False
  then have "\<not> (\<exists>m. ms = Some m \<and> 0 < m)"
    by (auto simp: wt_init_def split: option.splits)
  with False show ?thesis
    by (simp add: wt_run_def wt_steps_unarmed) (simp add: wt_init_def)
qed


lemma withTimeout_fst:
  "fst (withTimeout fn ms parentSignal events w) =
     wt_settle (wt_run ms parentSignal events) (fst (fn (wt_signal ms parentSignal events) w))"
  by (simp add: withTimeout_def wt_signal_def Let_def case_prod_beta)

lemma withTimeout_snd:
  "snd (withTimeout fn ms parentSignal events w) = snd (fn (wt_signal ms parentSignal events) w)"
  by (simp add: withTimeout_def wt_signal_def Let_def case_prod_beta)

text \<open>
  Claim C4.  When the deadline timer fires while the operation is pending and the operation
  then raises an error, \<open>withTimeout\<close> fails with its own timeout error, whatever the
  operation raised.  When the timer does not fire and the controller was aborted through the
  parent signal (already aborted at the call, or aborted while the operation was pending),
  the operation sees an aborted signal and its error surfaces unchanged.
\<close>

theorem withTimeout_timeout_replaces_error:
  "((\<exists>m. ms = Some m \<and> 0 < m) \<and> TimerFires \<in> set events \<and>
      fst (fn (wt_signal ms parentSignal events) w) = Inl err
      \<longrightarrow> fst (withTimeout fn ms parentSignal events w) = Inl Timeout)
   \<and>
   (TimerFires \<notin> set events \<and>
      (parentSignal = Some True \<or> parentSignal = Some False \<and> ParentAborts \<in> set events) \<and>
      fst (fn (wt_signal ms parentSignal events) w) = Inl err
      \<longrightarrow> wt_signal ms parentSignal events \<noteq> NotAborted \<and>
          fst (withTimeout fn ms parentSignal events w) = Inl (Rethrown err))"
proof (intro conjI impI)
  assume h: "(\<exists>m. ms = Some m \<and> 0 < m) \<and> TimerFires \<in> set events \<and>
      fst (fn (wt_signal ms parentSignal events) w) = Inl err"
  then have "timedOut (wt_run ms parentSignal events)"
    by (simp add: timedOut_wt_run_iff)
  with h show "fst (withTimeout fn ms parentSignal events w) = Inl Timeout"
    by (simp add: withTimeout_fst wt_settle_def)
next
  assume h: "TimerFires \<notin> set events \<and>
      (parentSignal = Some True \<or> parentSignal = Some False \<and> ParentAborts \<in> set events) \<and>
      fst (fn (wt_signal ms parentSignal events) w) = Inl err"
  then have "\<not> timedOut (wt_run ms parentSignal events)"
    by (simp add: timedOut_wt_run_iff)
  with h show "fst (withTimeout fn ms parentSignal events w) = Inl (Rethrown err)"
    by (simp add: withTimeout_fst wt_settle_def)
next
  assume h: "TimerFires \<notin> set events \<and>
      (parentSignal = Some True \<or> parentSignal = Some False \<and> ParentAborts \<in> set events) \<and>
      fst (fn (wt_signal ms parentSignal events) w) = Inl err"
  then consider "parentSignal = Some True"
    | "parentSignal = Some False" and "ParentAborts \<in> set events" by blast
  then show "wt_signal ms parentSignal events \<noteq> NotAborted"
  proof cases
    case 1
    then have "aborted (wt_init ms parentSignal) \<noteq> NotAborted" by (simp add: wt_init_def)
    then show ?thesis unfolding wt_signal_def wt_run_def by (rule wt_steps_aborted_stays)
  next
    case 2
    then have "listening (wt_init ms parentSignal)" by (simp add: wt_init_def)
    then show ?thesis unfolding wt_signal_def wt_run_def using 2(2)
      by (rule wt_steps_parent_aborts)
  qed
qed

theorem withTimeout_timeout_replaces_error_witness:
  "fst (withTimeout (\<lambda>st w. (if st = NotAborted then Inr (0::nat) else Inl ''aborted'', w))
       (Some 1000) (Some False) [ParentAborts, TimerFires] ()) = Inl Timeout
   \<and> fst (withTimeout (\<lambda>st w. (if st = NotAborted then Inr (0::nat) else Inl ''aborted'', w))
       (Some 1000) (Some False) [ParentAborts] ()) = Inl (Rethrown ''aborted'')"
proof -
  let ?fn = "\<lambda>st (w::unit). (if st = NotAborted then Inr (0::nat) else Inl ''aborted'', w)"
  have a: "wt_signal (Some 1000) (Some False) [ParentAborts, TimerFires] = AbortedDuringCall"
    by (simp add: wt_signal_def wt_run_def wt_init_def)
  have b: "wt_signal (Some 1000) (Some False) [ParentAborts] = AbortedDuringCall"
    by (simp add: wt_signal_def wt_run_def wt_init_def)
  from withTimeout_timeout_replaces_error
         [of "Some 1000" "[ParentAborts, TimerFires]" ?fn "Some False" "()" "''aborted''"] a
  have 1: "fst (withTimeout ?fn (Some 1000) (Some False) [ParentAborts, TimerFires] ()) = Inl Timeout"
    by simp
  from withTimeout_timeout_replaces_error
         [of "Some 1000" "[ParentAborts]" ?fn "Some False" "()" "''aborted''"] b
  have 2: "fst (withTimeout ?fn (Some 1000) (Some False) [ParentAborts] ()) = Inl (Rethrown ''aborted'')"
    by simp
  from 1 2 show ?thesis by simp
qed

text \<open>
  Claim C10.  An operation that completes with a value has that value returned by
  \<open>withTimeout\<close>, whatever happened to the timer in the meantime; and \<open>withTimeout\<close> fails with
  its timeout error only when the timer was set, fired while the operation was pending, and
  the operation then raised an error.
\<close>

theorem withTimeout_success_passes_through:
  "(fst (fn (wt_signal ms parentSignal events) w) = Inr v
      \<longrightarrow> fst (withTimeout fn ms parentSignal events w) = Inr v)
   \<and>
   (fst (withTimeout fn ms parentSignal events w) = Inl Timeout
      \<longrightarrow> (\<exists>m. ms = Some m \<and> 0 < m) \<and> TimerFires \<in> set events \<and>
          (\<exists>err. fst (fn (wt_signal ms parentSignal events) w) = Inl err))"
proof (intro conjI impI)
  assume "fst (fn (wt_signal ms parentSignal events) w) = Inr v"
  then show "fst (withTimeout fn ms parentSignal events w) = Inr v"
    by (simp add: withTimeout_fst wt_settle_def)
next
  assume t: "fst (withTimeout fn ms parentSignal events w) = Inl Timeout"
  then have "timedOut (wt_run ms parentSignal events)"
    by (auto simp: withTimeout_fst wt_settle_def split: sum.splits if_splits)
  then show "\<exists>m. ms = Some m \<and> 0 < m" and "TimerFires \<in> set events"
    by (simp_all add: timedOut_wt_run_iff)
  from t show "\<exists>err. fst (fn (wt_signal ms parentSignal events) w) = Inl err"
    by (auto simp: withTimeout_fst wt_settle_def split: sum.splits)
qed

theorem withTimeout_success_passes_through_witness:
  "fst (withTimeout (\<lambda>st w. ((Inr (if st = AbortedDuringCall then 7 else 0) :: string + nat), w))
       (Some 1000) None [TimerFires] ()) = Inr 7
   \<and> (fst (withTimeout (\<lambda>st w. ((Inl ''late'' :: string + nat), w))
         (Some 1000) None [TimerFires] ()) = Inl Timeout
      \<and> TimerFires \<in> set [TimerFires])"
proof -
  let ?ok = "\<lambda>st (w::unit). ((Inr (if st = AbortedDuringCall then 7 else 0) :: string + nat), w)"
  let ?bad = "\<lambda>(st :: abort_status) (w::unit). ((Inl ''late'' :: string + nat), w)"
  have a: "wt_signal (Some 1000) None [TimerFires] = AbortedDuringCall"
    by (simp add: wt_signal_def wt_run_def wt_init_def)
  from withTimeout_success_passes_through [of ?ok "Some 1000" None "[TimerFires]" "()" 7] a
  have 1: "fst (withTimeout ?ok (Some 1000) None [TimerFires] ()) = Inr 7"
    by simp
  have t: "fst (withTimeout ?bad (Some 1000) None [TimerFires] ()) = Inl Timeout"
    by (simp add: withTimeout_fst wt_settle_def wt_run_def wt_init_def)
  from withTimeout_success_passes_through [of ?bad "Some 1000" None "[TimerFires]" "()"] t
  have 2: "TimerFires \<in> set [TimerFires]"
    by blast
  from 1 t 2 show ?thesis by simp
qed

section \<open>Properties of the file names\<close>













section \<open>Properties of the conversion invoker\<close>

lemma convertFile_fst:
  assumes temp: "obtainTemp e opts (emit SlotAcquired w) = (Inr t, w1)"
  shows "fst (convertFile e documentOrPath fromExt toExt opts w) =
           fst (convertTry e documentOrPath fromExt toExt opts t w1)"
  using temp by (simp add: convertFile_def limit_def case_prod_beta)

lemma convertTry_closed:
  assumes wr: "writeInput e documentOrPath (inputPathOf documentOrPath fromExt t) w1 = (Inr (), w2)"
      and ch: "child e (converterArgs toExt (inputPathOf documentOrPath fromExt t) t)
                 (wt_signal (optTimeoutMs opts) (parentSignalOf e opts) (childEvents e)) =
               Closed outs errs code sig written"
  shows "fst (convertTry e documentOrPath fromExt toExt opts t w1) =
           checkOutput opts (outputPathOf toExt t)
             \<lparr> stdout = concat outs, stderr = concat errs, exitCode = code, exitSignal = sig \<rparr>
             ((emit ConverterExited (emit ConverterSpawned w2))
                \<lparr> files := files w2 ++ map_of written \<rparr>)"
proof -
  let ?args = "converterArgs toExt (inputPathOf documentOrPath fromExt t) t"
  let ?st = "wt_signal (optTimeoutMs opts) (parentSignalOf e opts) (childEvents e)"
  let ?d = "\<lparr> stdout = concat outs, stderr = concat errs, exitCode = code, exitSignal = sig \<rparr>"
  let ?w3 = "(emit ConverterExited (emit ConverterSpawned w2))\<lparr> files := files w2 ++ map_of written \<rparr>"
  from ch have rc: "runChild e ?args ?st w2 = (Inr ?d, ?w3)"
    by (simp add: runChild_def)
  have "withTimeout (runChild e ?args) (optTimeoutMs opts) (parentSignalOf e opts) (childEvents e) w2
          = (Inr ?d, ?w3)"
    using rc by (simp add: withTimeout_def wt_signal_def wt_settle_def Let_def)
  with wr show ?thesis
    by (simp add: convertTry_def Let_def)
qed

text \<open>
  Claim C3.  Whenever \<open>convertFile\<close> has its workspace and its input, the converter process
  closes, and the expected output file is absent after that, the call fails with the error
  "No output file produced", which carries the concatenated chunks of the standard output and
  of the standard error, the exit code and the terminating signal.
\<close>

theorem convertFile_no_output_fails:
  assumes temp: "obtainTemp e opts (emit SlotAcquired w) = (Inr t, w1)"
      and wr: "writeInput e documentOrPath (inputPathOf documentOrPath fromExt t) w1 = (Inr (), w2)"
      and ch: "child e (converterArgs toExt (inputPathOf documentOrPath fromExt t) t)
                 (wt_signal (optTimeoutMs opts) (parentSignalOf e opts) (childEvents e)) =
               Closed outs errs code sig written"
      and absent: "(files w2 ++ map_of written) (outputPathOf toExt t) = None"
  shows "fst (convertFile e documentOrPath fromExt toExt opts w) =
           Inl (NoOutputFileProduced
                  \<lparr> stdout = concat outs, stderr = concat errs, exitCode = code, exitSignal = sig \<rparr>)"
  by (simp add: convertFile_fst [OF temp] convertTry_closed [OF wr ch] checkOutput_def emit_def
        absent)

theorem convertFile_no_output_fails_witness:
  "fst (convertFile (quietEnv\<lparr> child := failingSoffice \<rparr>) (Inl [80, 75, 3, 4])
          (js ''docx'') (js ''pdf'') bufferOptions emptyWorld) =
     Inl (NoOutputFileProduced
            \<lparr> stdout = js ''convert '', stderr = js ''Error: source file could not be loaded'',
              exitCode = Some 1, exitSignal = None \<rparr>)"
proof -
  let ?e = "quietEnv\<lparr> child := failingSoffice \<rparr>"
  let ?t = "\<lparr> tempDir = js ''/tmp/doc-conv-Ab12Cd'', filePath = js ''/tmp/doc-conv-Ab12Cd/file'',
              fast = False \<rparr>"
  let ?w1 = "created (js ''/tmp/doc-conv-Ab12Cd'') (emit SlotAcquired emptyWorld)"
  let ?w2 = "?w1\<lparr> files := (files ?w1)(js ''/tmp/doc-conv-Ab12Cd/file.docx'' \<mapsto> Readable [80, 75, 3, 4]) \<rparr>"
  have temp: "obtainTemp ?e bufferOptions (emit SlotAcquired emptyWorld) = (Inr ?t, ?w1)"
    by (simp add: obtainTemp_def bufferOptions_def newFileTemp_def init_def chooseBaseDir_def
          quietEnv_def orUndefined_def join_def js_def Let_def)
  have wr: "writeInput ?e (Inl [80, 75, 3, 4]) (inputPathOf (Inl [80, 75, 3, 4]) (js ''docx'') ?t) ?w1
              = (Inr (), ?w2)"
    by (simp add: writeInput_def inputPathOf_def quietEnv_def js_def)
  have ch: "child ?e (converterArgs (js ''pdf'') (inputPathOf (Inl [80, 75, 3, 4]) (js ''docx'') ?t) ?t)
              (wt_signal (optTimeoutMs bufferOptions) (parentSignalOf ?e bufferOptions) (childEvents ?e))
            = Closed [js ''convert ''] [js ''Error: source file could not be loaded''] (Some 1) None []"
    by (simp add: failingSoffice_def)
  have absent: "(files ?w2 ++ map_of []) (outputPathOf (js ''pdf'') ?t) = None"
    by (simp add: outputPathOf_def created_def emit_def emptyWorld_def js_def)
  from convertFile_no_output_fails [OF temp wr ch absent] show ?thesis
    by simp
qed

text \<open>
  Claim C2, as amended.  Whenever \<open>convertFile\<close> has its workspace and its input, the
  converter process closes, and the expected output file exists after that, the call returns
  the output path when \<open>keepTemp\<close> is set, and the bytes of the file when \<open>keepTemp\<close> is not
  set and the file can be read; what the process wrote to its error stream and its exit code
  play no part.
\<close>

theorem convertFile_output_present_succeeds:
  assumes temp: "obtainTemp e opts (emit SlotAcquired w) = (Inr t, w1)"
      and wr: "writeInput e documentOrPath (inputPathOf documentOrPath fromExt t) w1 = (Inr (), w2)"
      and ch: "child e (converterArgs toExt (inputPathOf documentOrPath fromExt t) t)
                 (wt_signal (optTimeoutMs opts) (parentSignalOf e opts) (childEvents e)) =
               Closed outs errs code sig written"
      and present: "(files w2 ++ map_of written) (outputPathOf toExt t) = Some entry"
  shows "(optKeepTemp opts \<longrightarrow>
            fst (convertFile e documentOrPath fromExt toExt opts w) =
              Inr (OutputPath (outputPathOf toExt t)))
       \<and> (\<not> optKeepTemp opts \<longrightarrow>
            (\<forall>bytes. entry = Readable bytes \<longrightarrow>
               fst (convertFile e documentOrPath fromExt toExt opts w) = Inr (ConvertedFile bytes)))"
  by (simp add: convertFile_fst [OF temp] convertTry_closed [OF wr ch] checkOutput_def emit_def
        present)

theorem convertFile_output_present_succeeds_witness:
  "fst (convertFile quietEnv (Inl [80, 75, 3, 4]) (js ''docx'') (js ''pdf'') bufferOptions
          emptyWorld) = Inr (ConvertedFile [37, 80, 68, 70])"
proof -
  let ?t = "\<lparr> tempDir = js ''/tmp/doc-conv-Ab12Cd'', filePath = js ''/tmp/doc-conv-Ab12Cd/file'',
              fast = False \<rparr>"
  let ?w1 = "created (js ''/tmp/doc-conv-Ab12Cd'') (emit SlotAcquired emptyWorld)"
  let ?w2 = "?w1\<lparr> files := (files ?w1)(js ''/tmp/doc-conv-Ab12Cd/file.docx'' \<mapsto> Readable [80, 75, 3, 4]) \<rparr>"
  let ?written = "[(js ''/tmp/doc-conv-Ab12Cd/file.pdf'', Readable [37, 80, 68, 70])]"
  have temp: "obtainTemp quietEnv bufferOptions (emit SlotAcquired emptyWorld) = (Inr ?t, ?w1)"
    by (simp add: obtainTemp_def bufferOptions_def newFileTemp_def init_def chooseBaseDir_def
          quietEnv_def orUndefined_def join_def js_def Let_def)
  have wr: "writeInput quietEnv (Inl [80, 75, 3, 4])
              (inputPathOf (Inl [80, 75, 3, 4]) (js ''docx'') ?t) ?w1 = (Inr (), ?w2)"
    by (simp add: writeInput_def inputPathOf_def quietEnv_def js_def)
  have ch: "child quietEnv
              (converterArgs (js ''pdf'') (inputPathOf (Inl [80, 75, 3, 4]) (js ''docx'') ?t) ?t)
              (wt_signal (optTimeoutMs bufferOptions) (parentSignalOf quietEnv bufferOptions)
                 (childEvents quietEnv))
            = Closed [js ''convert ''] [js ''javaldx: Could not find a Java Runtime Environment!'']
                (Some 0) None ?written"
    by (simp add: quietEnv_def soffice_def converterArgs_def join_def js_def)
  have present: "(files ?w2 ++ map_of ?written) (outputPathOf (js ''pdf'') ?t)
                   = Some (Readable [37, 80, 68, 70])"
    by (simp add: outputPathOf_def js_def)
  have nk: "\<not> optKeepTemp bufferOptions" by (simp add: bufferOptions_def)
  from convertFile_output_present_succeeds [OF temp wr ch present] nk show ?thesis
    by simp
qed

text \<open>
  The claim as stated fails when \<open>keepTemp\<close> is not set and the output file exists and cannot
  be read: the process has exited, the file is there, and the call fails with "Failed to
  read converted file".
\<close>

theorem convertFile_output_present_counterexample:
  "fst (convertFile (quietEnv\<lparr> child := unreadableSoffice \<rparr>) (Inl [80, 75, 3, 4])
          (js ''docx'') (js ''pdf'') bufferOptions emptyWorld) =
     Inl (FailedToReadConvertedFile
            \<lparr> stdout = [], stderr = [], exitCode = Some 0, exitSignal = None \<rparr>
            (RuntimeError (js ''EACCES: permission denied'')))
   \<and> trace (snd (convertFile (quietEnv\<lparr> child := unreadableSoffice \<rparr>) (Inl [80, 75, 3, 4])
          (js ''docx'') (js ''pdf'') bufferOptions emptyWorld)) =
       [SlotAcquired, WorkspaceCreated, ConverterSpawned, ConverterExited, CleanupAttempted,
        SlotReleased]"
  by code_simp

section \<open>Properties of the admission limiter\<close>







section \<open>Properties of the pipeline\<close>

lemma trace_emit: "trace (emit ev w) = trace w @ [ev]"
  by (simp add: emit_def)

lemma dirs_emit: "dirs (emit ev w) = dirs w"
  by (simp add: emit_def)

lemma trace_clean:
  "trace (cleanFileOnTmpFolder e t w) =
     (if tempDir t = [] then trace w else trace w @ [CleanupAttempted])"
  by (simp add: cleanFileOnTmpFolder_def Let_def emit_def)

lemma dirs_clean:
  "dirs (cleanFileOnTmpFolder e t w) =
     (if tempDir t \<noteq> [] \<and> rmOk e then removeAll (tempDir t) (dirs w) else dirs w)"
  by (simp add: cleanFileOnTmpFolder_def Let_def emit_def)

lemma newFileTemp_shape:
  "(\<exists>err. newFileTemp e w = (Inl err, w)) \<or>
   (\<exists>t. newFileTemp e w = (Inr t, emit WorkspaceCreated (w\<lparr> dirs := tempDir t # dirs w \<rparr>))
        \<and> tempDir t \<noteq> [])"
  by (auto simp: newFileTemp_def init_def Let_def created_def join_def js_def
           split: prod.splits option.splits)

lemma withTimeout_Inr_iff:
  "fst (withTimeout fn ms parentSignal events w) = Inr x \<longleftrightarrow>
   fst (fn (wt_signal ms parentSignal events) w) = Inr x"
  by (auto simp: withTimeout_fst wt_settle_def split: sum.splits)

lemma convertFile_kept_snd:
  assumes "optTemp opts = Some t" "optKeepTemp opts"
  shows "snd (convertFile e (Inr ip) fe te opts w) =
           emit SlotReleased
             (snd (runChild e (converterArgs te ip t)
                     (wt_signal (optTimeoutMs opts) (parentSignalOf e opts) (childEvents e))
                     (emit SlotAcquired w)))"
  using assms
  by (simp add: convertFile_def limit_def obtainTemp_def convertTry_def writeInput_def
        inputPathOf_def Let_def case_prod_beta withTimeout_snd
      split: sum.splits)

lemma convertFile_kept_Inr:
  assumes "optTemp opts = Some t" "optKeepTemp opts"
      and "fst (convertFile e (Inr ip) fe te opts w) = Inr x"
  shows "x = OutputPath (outputPathOf te t) \<and>
         (\<exists>d. fst (runChild e (converterArgs te ip t)
                 (wt_signal (optTimeoutMs opts) (parentSignalOf e opts) (childEvents e))
                 (emit SlotAcquired w)) = Inr d)"
  using assms
  by (auto simp: convertFile_def limit_def obtainTemp_def convertTry_def writeInput_def
        inputPathOf_def Let_def case_prod_beta withTimeout_fst wt_settle_def checkOutput_def
      split: sum.splits option.splits if_splits)

lemma runChild_trace:
  "(\<exists>err. fst (runChild e args st w) = Inl err \<and> trace (snd (runChild e args st w)) = trace w)
   \<or> (\<exists>d. fst (runChild e args st w) = Inr d \<and>
          trace (snd (runChild e args st w)) = trace w @ [ConverterSpawned, ConverterExited])"
  by (cases "child e args st") (simp_all add: runChild_def emit_def)

lemma runChild_dirs: "dirs (snd (runChild e args st w)) = dirs w"
  by (cases "child e args st") (simp_all add: runChild_def emit_def)

lemma convertFile_kept:
  assumes opts: "optTemp opts = Some t" "optKeepTemp opts"
  shows "\<exists>c \<in> set conversionTraces.
           trace (snd (convertFile e (Inr ip) fe te opts w)) = trace w @ c \<and>
           dirs (snd (convertFile e (Inr ip) fe te opts w)) = dirs w \<and>
           (\<forall>x. fst (convertFile e (Inr ip) fe te opts w) = Inr x \<longrightarrow>
              x = OutputPath (outputPathOf te t) \<and>
              c = [SlotAcquired, ConverterSpawned, ConverterExited, SlotReleased])"
proof -
  let ?rc = "runChild e (converterArgs te ip t)
               (wt_signal (optTimeoutMs opts) (parentSignalOf e opts) (childEvents e))
               (emit SlotAcquired w)"
  have d: "dirs (snd (convertFile e (Inr ip) fe te opts w)) = dirs w"
    by (simp add: convertFile_kept_snd [OF opts] dirs_emit runChild_dirs)
  from runChild_trace [of e "converterArgs te ip t"
      "wt_signal (optTimeoutMs opts) (parentSignalOf e opts) (childEvents e)" "emit SlotAcquired w"]
  show ?thesis
  proof
    assume "\<exists>err. fst ?rc = Inl err \<and> trace (snd ?rc) = trace (emit SlotAcquired w)"
    then obtain err where l: "fst ?rc = Inl err" and tr: "trace (snd ?rc) = trace (emit SlotAcquired w)"
      by blast
    have "trace (snd (convertFile e (Inr ip) fe te opts w)) = trace w @ [SlotAcquired, SlotReleased]"
      by (simp add: convertFile_kept_snd [OF opts] trace_emit tr)
    moreover have "\<forall>x. fst (convertFile e (Inr ip) fe te opts w) \<noteq> Inr x"
      using convertFile_kept_Inr [OF opts] l by fastforce
    ultimately show ?thesis using d by (simp add: conversionTraces_def)
  next
    assume "\<exists>d. fst ?rc = Inr d \<and>
      trace (snd ?rc) = trace (emit SlotAcquired w) @ [ConverterSpawned, ConverterExited]"
    then have tr: "trace (snd ?rc) = trace (emit SlotAcquired w) @ [ConverterSpawned, ConverterExited]"
      by blast
    have "trace (snd (convertFile e (Inr ip) fe te opts w)) =
            trace w @ [SlotAcquired, ConverterSpawned, ConverterExited, SlotReleased]"
      by (simp add: convertFile_kept_snd [OF opts] trace_emit tr)
    moreover have "\<forall>x. fst (convertFile e (Inr ip) fe te opts w) = Inr x \<longrightarrow>
                     x = OutputPath (outputPathOf te t)"
      using convertFile_kept_Inr [OF opts] by blast
    ultimately show ?thesis using d by (simp add: conversionTraces_def)
  qed
qed

lemma conversionStep_shape:
  "\<exists>c \<in> set conversionTraces.
     trace (snd (conversionStep e t ip from to w)) = trace w @ c \<and>
     dirs (snd (conversionStep e t ip from to w)) = dirs w \<and>
     (\<forall>x. fst (conversionStep e t ip from to w) = Inr x \<longrightarrow>
        x = OutputPath (outputPathOf (stripLeadingDot to) t) \<and>
        c = [SlotAcquired, ConverterSpawned, ConverterExited, SlotReleased])"
proof -
  let ?opts = "\<lparr> optTemp = Some t, optKeepTemp = True, optTimeoutMs = Some DEFAULT_TIMEOUT_MS,
                 optSignal = True, optVerbose = False \<rparr>"
  let ?fn = "\<lambda>(st::abort_status) w0.
               convertFile e (Inr ip) (stripLeadingDot from) (stripLeadingDot to) ?opts w0"
  let ?wt = "withTimeout ?fn (Some DEFAULT_TIMEOUT_MS) None (conversionEvents e) w"
  have s: "snd (conversionStep e t ip from to w) = snd ?wt"
    by (simp add: conversionStep_def split: prod.splits sum.splits)
  have f: "fst (conversionStep e t ip from to w) = Inr x \<longleftrightarrow> fst ?wt = Inr x" for x
    by (auto simp: conversionStep_def split: prod.splits sum.splits)
  have o: "optTemp ?opts = Some t" "optKeepTemp ?opts" by simp_all
  from convertFile_kept [OF o, of e ip "stripLeadingDot from" "stripLeadingDot to" w]
  show ?thesis
    by (simp add: s f withTimeout_snd withTimeout_Inr_iff)
qed

lemma uploadStep_shape:
  "\<exists>u. trace (snd (uploadStep e p url name to w)) = trace w @ u \<and>
       dirs (snd (uploadStep e p url name to w)) = dirs w \<and>
       (u = [] \<or> u = [UploadStarted]) \<and>
       (u = [UploadStarted] \<longrightarrow>
          (\<forall>s hs b. answers e s hs b \<longrightarrow>
             fst (uploadStep e p url name to w) = Inr (forwarded s hs b))) \<and>
       (\<forall>up. fst (uploadStep e p url name to w) = Inr up \<longrightarrow> u = [UploadStarted])"
proof (cases "buildContentDispositionAttachment name to 100")
  case (Inl err)
  then have "trace (snd (uploadStep e p url name to w)) = trace w @ []"
    and "dirs (snd (uploadStep e p url name to w)) = dirs w"
    and "\<forall>up. fst (uploadStep e p url name to w) \<noteq> Inr up"
    by (simp_all add: uploadStep_def withTimeout_snd withTimeout_Inr_iff)
  then show ?thesis by blast
next
  case (Inr disposition)
  let ?pr = "\<lparr> putUrl = url, putContentType = contentTypeOf to,
               putContentDisposition = disposition, putBody = FileBody p \<rparr>"
  let ?st = "wt_signal (Some DEFAULT_TIMEOUT_MS) None (uploadEvents e)"
  have tr: "trace (snd (uploadStep e p url name to w)) = trace w @ [UploadStarted]"
    using Inr by (cases "put e ?pr ?st") (simp_all add: uploadStep_def withTimeout_snd emit_def)
  have di: "dirs (snd (uploadStep e p url name to w)) = dirs w"
    using Inr by (cases "put e ?pr ?st") (simp_all add: uploadStep_def withTimeout_snd emit_def)
  have an: "fst (uploadStep e p url name to w) = Inr (forwarded s hs b)" if "answers e s hs b" for s hs b
  proof -
    from that have "put e ?pr ?st = PutResponse s hs b" by (simp add: answers_def)
    with Inr show ?thesis
      by (simp add: uploadStep_def withTimeout_Inr_iff forwarded_def)
  qed
  from tr di an show ?thesis by blast
qed

lemma convertAndDispatch_shape:
  "\<exists>x. trace (snd (convertAndDispatch e t ip from to keep final name w)) = trace w @ x \<and>
       dirs (snd (convertAndDispatch e t ip from to keep final name w)) = dirs w \<and>
       dispatched e t keep (fst (convertAndDispatch e t ip from to keep final name w)) x"
proof -
  let ?cs = "conversionStep e t ip from to w"
  let ?full = "[SlotAcquired, ConverterSpawned, ConverterExited, SlotReleased]"
  from conversionStep_shape [of e t ip "from" to w]
  obtain c where c: "c \<in> set conversionTraces"
    and ctr: "trace (snd ?cs) = trace w @ c"
    and cdi: "dirs (snd ?cs) = dirs w"
    and cok: "\<And>x. fst ?cs = Inr x \<Longrightarrow>
                x = OutputPath (outputPathOf (stripLeadingDot to) t) \<and> c = ?full"
    by blast
  show ?thesis
  proof (cases "fst ?cs")
    case (Inl err)
    then have r: "convertAndDispatch e t ip from to keep final name w = (Inl err, snd ?cs)"
      by (simp add: convertAndDispatch_def case_prod_beta)
    have "dispatched e t keep (Inl err) (c @ [])"
      unfolding dispatched_def using c by (intro bexI [of _ c] exI [of _ "[]"]) simp_all
    with r ctr cdi show ?thesis by simp
  next
    case (Inr res)
    with cok have res: "res = OutputPath (outputPathOf (stripLeadingDot to) t)" and full: "c = ?full"
      by blast+
    let ?p = "outputPathOf (stripLeadingDot to) t"
    have pne: "?p \<noteq> []" by (simp add: outputPathOf_def js_def)
    show ?thesis
    proof (cases keep)
      case True
      with Inr res
      have r: "convertAndDispatch e t ip from to keep final name w =
                 (Inr (StreamResult ?p name t, res, name), snd ?cs)"
        by (simp add: convertAndDispatch_def dispatchInside_def case_prod_beta)
      have "dispatched e t keep (Inr (StreamResult ?p name t, res, name)) (c @ [])"
        unfolding dispatched_def using c full pne True
        by (intro bexI [of _ c] exI [of _ "[]"]) simp_all
      with r ctr cdi show ?thesis by simp
    next
      case False
      let ?url = "case final of Some url \<Rightarrow> url | None \<Rightarrow> js ''undefined''"
      let ?up = "uploadStep e ?p ?url name to (snd ?cs)"
      from uploadStep_shape [of e ?p ?url name to "snd ?cs"]
      obtain u where utr: "trace (snd ?up) = trace (snd ?cs) @ u"
        and udi: "dirs (snd ?up) = dirs (snd ?cs)"
        and u: "u = [] \<or> u = [UploadStarted]"
        and uan: "u = [UploadStarted] \<Longrightarrow> answers e s hs b \<Longrightarrow> fst ?up = Inr (forwarded s hs b)"
        and uok: "\<And>up. fst ?up = Inr up \<Longrightarrow> u = [UploadStarted]" for s hs b
        by blast
      have s: "snd (convertAndDispatch e t ip from to keep final name w) = snd ?up"
        using Inr res False
        by (simp add: convertAndDispatch_def dispatchInside_def case_prod_beta split: sum.splits)
      have f: "fst (convertAndDispatch e t ip from to keep final name w) =
                 (case fst ?up of Inl err \<Rightarrow> Inl (thrown err)
                  | Inr up \<Rightarrow> Inr (UploadResult up, res, name))"
        using Inr res False
        by (simp add: convertAndDispatch_def dispatchInside_def case_prod_beta split: sum.splits)
      have "dispatched e t keep (fst (convertAndDispatch e t ip from to keep final name w)) (c @ u)"
        unfolding dispatched_def
      proof (intro bexI [of _ c] exI [of _ u] conjI impI allI)
        show "c \<in> set conversionTraces" by (rule c)
        show "c @ u = c @ u" by simp
        show "u = [] \<or> u = [UploadStarted]" by (rule u)
      next
        assume "u = [UploadStarted]"
        show "\<not> keep" by (rule False)
        show "c = ?full" by (rule full)
      next
        fix s hs b
        assume "u = [UploadStarted]" and "answers e s hs b"
        then have "fst ?up = Inr (forwarded s hs b)" by (rule uan)
        then show "\<exists>res' name'. fst (convertAndDispatch e t ip from to keep final name w) =
                     Inr (UploadResult (forwarded s hs b), res', name')"
          by (simp add: f)
      next
        fix hr res' name'
        assume a: "fst (convertAndDispatch e t ip from to keep final name w) = Inr (hr, res', name')"
        show "c = ?full" by (rule full)
        from a obtain up where "fst ?up = Inr up" and "hr = UploadResult up"
          by (auto simp: f split: sum.splits)
        with uok False
        show "(\<exists>p. p \<noteq> [] \<and> hr = StreamResult p name' t \<and> keep \<and> u = []) \<or>
              (\<exists>up. hr = UploadResult up \<and> \<not> keep \<and> u = [UploadStarted])"
          by blast
      qed
      with s utr udi ctr cdi show ?thesis by simp
    qed
  qed
qed

lemma streamWebToFile_world:
  "trace (snd (streamWebToFile stream path pipelineError w)) = trace w \<and>
   dirs (snd (streamWebToFile stream path pipelineError w)) = dirs w"
  by (simp add: streamWebToFile_def split: option.splits)

lemma multipartCallback_staged: "staged e keep (multipartCallback e file from to keep final)"
  unfolding staged_def
proof (intro allI)
  fix t w
  let ?r = "multipartCallback e file from to keep final t w"
  let ?ip = "filePath t @ js ''.'' @ from"
  let ?sw = "streamWebToFile (if fileHasStream file then Some (fileBytes file) else None)
               ?ip (uploadStreamError e) (emit StagingStarted w)"
  have str: "trace (snd ?sw) = trace w @ [StagingStarted]" and sdi: "dirs (snd ?sw) = dirs w"
    by (simp_all add: streamWebToFile_world emit_def)
  show "\<exists>x. trace (snd ?r) = trace w @ StagingStarted # x \<and> dirs (snd ?r) = dirs w \<and>
          ((x = [] \<and> (\<exists>err. fst ?r = Inl err)) \<or> dispatched e t keep (fst ?r) x)"
  proof (cases "fst ?sw")
    case (Inl err)
    then have "?r = (Inl err, snd ?sw)"
      by (simp add: multipartCallback_def Let_def case_prod_beta)
    with str sdi have "trace (snd ?r) = trace w @ StagingStarted # []" "dirs (snd ?r) = dirs w"
      "\<exists>err. fst ?r = Inl err"
      by simp_all
    then show ?thesis by blast
  next
    case (Inr u)
    let ?name = "if fileName file \<noteq> [] then fileName file else js ''converted.'' @ to"
    have r: "?r = convertAndDispatch e t ?ip from to keep final ?name (snd ?sw)"
      using Inr by (simp add: multipartCallback_def Let_def case_prod_beta)
    from convertAndDispatch_shape [of e t ?ip "from" to keep final ?name "snd ?sw"]
    obtain x where "trace (snd ?r) = trace (snd ?sw) @ x" "dirs (snd ?r) = dirs (snd ?sw)"
      "dispatched e t keep (fst ?r) x"
      unfolding r by blast
    with str sdi have "trace (snd ?r) = trace w @ StagingStarted # x" "dirs (snd ?r) = dirs w"
      "dispatched e t keep (fst ?r) x"
      by simp_all
    then show ?thesis by blast
  qed
qed

lemma downloadOp_trace:
  "trace (snd (downloadOp e url ip st w)) = trace w @ [StagingStarted] \<and>
   dirs (snd (downloadOp e url ip st w)) = dirs w"
  by (cases "download e url st")
     (simp_all add: downloadOp_def Let_def emit_def streamWebToFile_def split: option.splits)

lemma jsonCallback_staged: "staged e keep (jsonCallback e url from to keep final)"
  unfolding staged_def
proof (intro allI)
  fix t w
  let ?r = "jsonCallback e url from to keep final t w"
  let ?ip = "filePath t @ js ''.'' @ from"
  let ?dl = "withTimeout (downloadOp e url ?ip) (Some DEFAULT_TIMEOUT_MS) None (downloadEvents e) w"
  have dtr: "trace (snd ?dl) = trace w @ [StagingStarted]" and ddi: "dirs (snd ?dl) = dirs w"
    by (simp_all add: withTimeout_snd downloadOp_trace)
  show "\<exists>x. trace (snd ?r) = trace w @ StagingStarted # x \<and> dirs (snd ?r) = dirs w \<and>
          ((x = [] \<and> (\<exists>err. fst ?r = Inl err)) \<or> dispatched e t keep (fst ?r) x)"
  proof (cases "fst ?dl")
    case (Inl err)
    then have "?r = (Inl (thrown err), snd ?dl)"
      by (simp add: jsonCallback_def Let_def case_prod_beta)
    with dtr ddi have "trace (snd ?r) = trace w @ StagingStarted # []" "dirs (snd ?r) = dirs w"
      "\<exists>err. fst ?r = Inl err"
      by simp_all
    then show ?thesis by blast
  next
    case (Inr u)
    let ?name = "if lastSegment (urlPathname e url) \<noteq> [] then lastSegment (urlPathname e url)
                 else js ''downloaded.'' @ to"
    show ?thesis
    proof (cases "final = None \<and> \<not> keep")
      case True
      with Inr have "?r = (Inl MissingUploadUrl, snd ?dl)"
        by (simp add: jsonCallback_def Let_def case_prod_beta)
      with dtr ddi have "trace (snd ?r) = trace w @ StagingStarted # []" "dirs (snd ?r) = dirs w"
        "\<exists>err. fst ?r = Inl err"
        by simp_all
      then show ?thesis by blast
    next
      case False
      with Inr have r: "?r = convertAndDispatch e t ?ip from to keep final ?name (snd ?dl)"
        by (auto simp: jsonCallback_def Let_def case_prod_beta)
      from convertAndDispatch_shape [of e t ?ip "from" to keep final ?name "snd ?dl"]
      obtain x where "trace (snd ?r) = trace (snd ?dl) @ x" "dirs (snd ?r) = dirs (snd ?dl)"
        "dispatched e t keep (fst ?r) x"
        unfolding r by blast
      with dtr ddi have "trace (snd ?r) = trace w @ StagingStarted # x" "dirs (snd ?r) = dirs w"
        "dispatched e t keep (fst ?r) x"
        by simp_all
      then show ?thesis by blast
    qed
  qed
qed

lemma multipartCaught_catches: "catches (multipartCaught e w0)"
  by (auto simp: catches_def multipartCaught_def cleanTempNow_def trace_clean
           split: option.splits)

lemma jsonCaught_catches: "catches jsonCaught"
  by (simp add: catches_def jsonCaught_def)

lemma pipelineTrace_converted:
  "c \<in> set conversionTraces \<Longrightarrow> set post \<subseteq> {UploadStarted, StreamOpened, CleanupAttempted}
     \<Longrightarrow> pipelineTrace (WorkspaceCreated # StagingStarted # c @ post)"
  unfolding pipelineTrace_def by blast

lemma conversionTraces_no_upload: "c \<in> set conversionTraces \<Longrightarrow> UploadStarted \<notin> set c"
  by (auto simp: conversionTraces_def)

lemma settled_plain:
  assumes "set tr \<subseteq> {WorkspaceCreated, StagingStarted, CleanupAttempted}" and "trace wEnd = tr"
  shows "settled e resp wEnd"
  using assms by (auto simp: settled_def pipelineTrace_def)

lemma settled_no_upload:
  assumes "c \<in> set conversionTraces"
      and "set post \<subseteq> {StreamOpened, CleanupAttempted}"
      and "trace wEnd = WorkspaceCreated # StagingStarted # c @ post"
  shows "settled e resp wEnd"
proof -
  have "pipelineTrace (trace wEnd)"
    using assms pipelineTrace_converted [of c post] by auto
  moreover have "UploadStarted \<notin> set (trace wEnd)"
    using assms conversionTraces_no_upload [of c] by auto
  ultimately show ?thesis by (simp add: settled_def)
qed

lemma withTemp_new:
  "withTemp e None cb keep w =
     (case newFileTemp e w of
        (Inl err, w1) \<Rightarrow> (Inl err, w1)
      | (Inr t, w1) \<Rightarrow>
          (fst (cb t w1), if \<not> keep then cleanFileOnTmpFolder e t (snd (cb t w1)) else snd (cb t w1)))"
  by (simp add: withTemp_def case_prod_beta split: sum.splits)

lemma runPipeline_shape:
  assumes st: "staged e keep cb" and ca: "catches caught"
      and fresh: "trace w = []" "dirs w = []"
  shows "\<exists>resp deferred.
           fst (runPipeline e cb keep final to caught w) = Inr (resp, deferred) \<and>
           settled e resp (finishStream e deferred (snd (runPipeline e cb keep final to caught w)))"
proof -
  let ?r = "runPipeline e cb keep final to caught w"
  let ?full = "[SlotAcquired, ConverterSpawned, ConverterExited, SlotReleased]"
  have caught_case:
    "\<exists>resp deferred. fst (caught err w') = Inr (resp, deferred) \<and>
        settled e resp (finishStream e deferred (snd (caught err w')))"
    if plain: "set (trace w') \<subseteq> {WorkspaceCreated, StagingStarted, CleanupAttempted}"
    for err w'
  proof -
    from ca obtain resp k where f: "fst (caught err w') = Inr (resp, None)"
      and k: "trace (snd (caught err w')) = trace w' @ k" "set k \<subseteq> {CleanupAttempted}"
      unfolding catches_def by blast
    have "settled e resp (snd (caught err w'))"
      by (rule settled_plain [of "trace w' @ k"]) (use plain k in auto)
    with f show ?thesis by (auto simp: finishStream_def)
  qed
  from newFileTemp_shape [of e w] show ?thesis
  proof
    assume "\<exists>err. newFileTemp e w = (Inl err, w)"
    then obtain err where "newFileTemp e w = (Inl err, w)" by blast
    then have "?r = caught err w"
      by (simp add: runPipeline_def withTemp_new)
    moreover have "set (trace w) \<subseteq> {WorkspaceCreated, StagingStarted, CleanupAttempted}"
      using fresh by simp
    ultimately show ?thesis using caught_case [of w err] by simp
  next
    assume "\<exists>t. newFileTemp e w = (Inr t, emit WorkspaceCreated (w\<lparr> dirs := tempDir t # dirs w \<rparr>))
              \<and> tempDir t \<noteq> []"
    then obtain t where nt: "newFileTemp e w = (Inr t, emit WorkspaceCreated (w\<lparr> dirs := tempDir t # dirs w \<rparr>))"
      and tne: "tempDir t \<noteq> []"
      by blast
    let ?w0 = "emit WorkspaceCreated (w\<lparr> dirs := tempDir t # dirs w \<rparr>)"
    let ?rc = "cb t ?w0"
    let ?wk = "if \<not> keep then cleanFileOnTmpFolder e t (snd ?rc) else snd ?rc"
    let ?kk = "if keep then [] else [CleanupAttempted]"
    have wt: "withTemp e None cb keep w = (fst ?rc, ?wk)"
      by (simp add: withTemp_new nt)
    from st obtain x where xtr: "trace (snd ?rc) = trace ?w0 @ StagingStarted # x"
      and xdi: "dirs (snd ?rc) = dirs ?w0"
      and xsh: "(x = [] \<and> (\<exists>err. fst ?rc = Inl err)) \<or> dispatched e t keep (fst ?rc) x"
      unfolding staged_def by blast
    have rctr: "trace (snd ?rc) = WorkspaceCreated # StagingStarted # x"
      using xtr fresh by (simp add: emit_def)
    have rcdi: "dirs (snd ?rc) = [tempDir t]"
      using xdi fresh by (simp add: emit_def)
    have wktr: "trace ?wk = WorkspaceCreated # StagingStarted # x @ ?kk"
      using rctr tne by (simp add: trace_clean)
    have wkdi: "\<not> keep \<Longrightarrow> rmOk e \<Longrightarrow> dirs ?wk = []"
      using rcdi tne by (simp add: dirs_clean)
    from xsh show ?thesis
    proof
      assume "x = [] \<and> (\<exists>err. fst ?rc = Inl err)"
      then obtain err where x: "x = []" and l: "fst ?rc = Inl err" by blast
      have "?r = caught err ?wk"
        using l by (simp add: runPipeline_def wt)
      moreover have "set (trace ?wk) \<subseteq> {WorkspaceCreated, StagingStarted, CleanupAttempted}"
        using wktr x by auto
      ultimately show ?thesis using caught_case [of ?wk err] by simp
    next
      assume "dispatched e t keep (fst ?rc) x"
      then obtain c u where c: "c \<in> set conversionTraces" and x: "x = c @ u"
        and u: "u = [] \<or> u = [UploadStarted]"
        and sent: "u = [UploadStarted] \<Longrightarrow> \<not> keep \<and> c = ?full"
        and ans: "\<And>s hs b. u = [UploadStarted] \<Longrightarrow> answers e s hs b \<Longrightarrow>
                    \<exists>res name. fst ?rc = Inr (UploadResult (forwarded s hs b), res, name)"
        and ok: "\<And>hr res name. fst ?rc = Inr (hr, res, name) \<Longrightarrow>
                   c = ?full \<and>
                   ((\<exists>p. p \<noteq> [] \<and> hr = StreamResult p name t \<and> keep \<and> u = []) \<or>
                    (\<exists>up. hr = UploadResult up \<and> \<not> keep \<and> u = [UploadStarted]))"
        unfolding dispatched_def by blast
      show ?thesis
      proof (cases "fst ?rc")
        case (Inl err)
        have r: "?r = caught err ?wk"
          using Inl by (simp add: runPipeline_def wt)
        from ca obtain resp k where f: "fst (caught err ?wk) = Inr (resp, None)"
          and k: "trace (snd (caught err ?wk)) = trace ?wk @ k" "set k \<subseteq> {CleanupAttempted}"
          unfolding catches_def by blast
        have tr: "trace (snd ?r) = WorkspaceCreated # StagingStarted # c @ (u @ ?kk @ k)"
          using r k wktr x by simp
        have post: "set (u @ ?kk @ k) \<subseteq> {UploadStarted, StreamOpened, CleanupAttempted}"
          using u k by auto
        have "settled e resp (snd ?r)"
          unfolding settled_def
        proof (intro conjI impI allI)
          show "pipelineTrace (trace (snd ?r))"
            unfolding tr using c post by (rule pipelineTrace_converted)
        next
          fix s hs b
          assume up: "UploadStarted \<in> set (trace (snd ?r))" and a: "answers e s hs b"
          from up have "u = [UploadStarted]"
            using tr u k conversionTraces_no_upload [OF c] by (auto split: if_splits)
          from ans [OF this a] Inl have False by simp
          then show "resp = \<lparr> rStatus = s, rHeaders = forwardedHeaders hs, rBody = BytesBody b \<rparr>"
            and "trace (snd ?r) = [WorkspaceCreated, StagingStarted, SlotAcquired, ConverterSpawned,
                       ConverterExited, SlotReleased, UploadStarted, CleanupAttempted]"
            and "rmOk e \<Longrightarrow> dirs (snd ?r) = []"
            by simp_all
        qed
        with r f show ?thesis by (simp add: finishStream_def)
      next
        case (Inr triple)
        obtain hr res name where triple: "triple = (hr, res, name)" by (cases triple)
        from ok [of hr res name] Inr triple have full: "c = ?full"
          and alt: "(\<exists>p. p \<noteq> [] \<and> hr = StreamResult p name t \<and> keep \<and> u = []) \<or>
                    (\<exists>up. hr = UploadResult up \<and> \<not> keep \<and> u = [UploadStarted])"
          by simp_all
        have r: "?r = (case afterWithTemp hr name to ?wk of
                         (Inl err, w2) \<Rightarrow> caught err w2
                       | (Inr (Some out), w2) \<Rightarrow> (Inr out, w2)
                       | (Inr None, w2) \<Rightarrow> tail e keep final to name res (tempForCleanupOf e w) w2)"
          using Inr triple by (simp add: runPipeline_def wt)
        from alt show ?thesis
        proof
          assume "\<exists>p. p \<noteq> [] \<and> hr = StreamResult p name t \<and> keep \<and> u = []"
          then obtain p where p: "p \<noteq> []" and hr: "hr = StreamResult p name t"
            and keep: keep and u0: "u = []"
            by blast
          have wk: "?wk = snd ?rc" using keep by simp
          have sotr: "trace (emit StreamOpened (snd ?rc)) =
                        WorkspaceCreated # StagingStarted # c @ [StreamOpened]"
            using rctr x u0 by (simp add: emit_def)
          show ?thesis
          proof (cases "buildContentDispositionAttachment name to 100")
            case (Inl err)
            then have r': "?r = caught err (emit StreamOpened (snd ?rc))"
              using r hr p wk by (simp add: afterWithTemp_def Let_def)
            from ca obtain resp k where f: "fst (caught err (emit StreamOpened (snd ?rc))) = Inr (resp, None)"
              and k: "trace (snd (caught err (emit StreamOpened (snd ?rc)))) =
                        trace (emit StreamOpened (snd ?rc)) @ k" "set k \<subseteq> {CleanupAttempted}"
              unfolding catches_def by blast
            have "settled e resp (snd ?r)"
            proof (rule settled_no_upload [OF c, of "StreamOpened # k"])
              show "set (StreamOpened # k) \<subseteq> {StreamOpened, CleanupAttempted}"
                using k by auto
              show "trace (snd ?r) = WorkspaceCreated # StagingStarted # c @ StreamOpened # k"
                using r' k sotr by simp
            qed
            with r' f show ?thesis by (simp add: finishStream_def)
          next
            case (Inr disposition)
            let ?resp = "\<lparr> rStatus = 200,
                           rHeaders = [(js ''Content-Type'', contentTypeOf to),
                                       (js ''Content-Disposition'', disposition)],
                           rBody = FileBody p \<rparr>"
            have r': "?r = (Inr (?resp, Some t), emit StreamOpened (snd ?rc))"
              using r hr p wk Inr by (simp add: afterWithTemp_def Let_def)
            have fin: "finishStream e (Some t) (emit StreamOpened (snd ?rc)) =
                         cleanFileOnTmpFolder e t (emit StreamOpened (snd ?rc))"
              by (cases "streamEnd e") (simp_all add: finishStream_def)
            have "settled e ?resp (cleanFileOnTmpFolder e t (emit StreamOpened (snd ?rc)))"
            proof (rule settled_no_upload [OF c, of "[StreamOpened, CleanupAttempted]"])
              show "set [StreamOpened, CleanupAttempted] \<subseteq> {StreamOpened, CleanupAttempted}"
                by simp
              show "trace (cleanFileOnTmpFolder e t (emit StreamOpened (snd ?rc))) =
                      WorkspaceCreated # StagingStarted # c @ [StreamOpened, CleanupAttempted]"
                using sotr tne by (simp add: trace_clean)
            qed
            with r' fin show ?thesis by simp
          qed
        next
          assume "\<exists>up. hr = UploadResult up \<and> \<not> keep \<and> u = [UploadStarted]"
          then obtain up where hr: "hr = UploadResult up" and nk: "\<not> keep"
            and u1: "u = [UploadStarted]"
            by blast
          let ?resp = "\<lparr> rStatus = upStatus up, rHeaders = upHeaders up,
                         rBody = BytesBody (upBody up) \<rparr>"
          have r': "?r = (Inr (?resp, None), ?wk)"
            using r hr by (simp add: afterWithTemp_def)
          have tr: "trace ?wk = [WorkspaceCreated, StagingStarted, SlotAcquired, ConverterSpawned,
                       ConverterExited, SlotReleased, UploadStarted, CleanupAttempted]"
            using wktr x full u1 nk by simp
          have "settled e ?resp ?wk"
            unfolding settled_def
          proof (intro conjI impI allI)
            have "pipelineTrace (WorkspaceCreated # StagingStarted # ?full @
                                   [UploadStarted, CleanupAttempted])"
              by (rule pipelineTrace_converted) (simp_all add: conversionTraces_def)
            then show "pipelineTrace (trace ?wk)" by (simp only: tr append.simps)
          next
            fix s hs b
            assume a: "answers e s hs b"
            from ans [OF u1 a] Inr triple hr have "up = forwarded s hs b" by simp
            then show "?resp = \<lparr> rStatus = s, rHeaders = forwardedHeaders hs, rBody = BytesBody b \<rparr>"
              by (simp add: forwarded_def)
            show "trace ?wk = [WorkspaceCreated, StagingStarted, SlotAcquired, ConverterSpawned,
                       ConverterExited, SlotReleased, UploadStarted, CleanupAttempted]"
              by (rule tr)
            show "rmOk e \<Longrightarrow> dirs ?wk = []"
              using wkdi nk by simp
          qed
          with r' show ?thesis by (simp add: finishStream_def)
        qed
      qed
    qed
  qed
qed

lemma settled_fresh: "trace w = [] \<Longrightarrow> settled e resp w"
  by (rule settled_plain [of "[]"]) simp_all

lemma multipartBranch_handled:
  assumes fresh: "trace w = []" "dirs w = []"
  shows "(\<exists>err. multipartBranch e req w = (Inl err, w)) \<or>
         (\<exists>resp deferred. fst (multipartBranch e req w) = Inr (resp, deferred) \<and>
            settled e resp (finishStream e deferred (snd (multipartBranch e req w))))"
proof -
  have plain: "\<exists>resp deferred. fst (Inr (r, None) :: outcome, w) = Inr (resp, deferred) \<and>
                 settled e resp (finishStream e deferred (snd (Inr (r, None) :: outcome, w)))" for r
    using settled_fresh [OF fresh(1)] by (simp add: finishStream_def)
  have piped: "\<exists>resp deferred.
           fst (runPipeline e (multipartCallback e file from to keep final) keep final to
                  (multipartCaught e w) w) = Inr (resp, deferred) \<and>
           settled e resp (finishStream e deferred
             (snd (runPipeline e (multipartCallback e file from to keep final) keep final to
                     (multipartCaught e w) w)))" for "file" "from" to keep final
    by (rule runPipeline_shape [OF multipartCallback_staged multipartCaught_catches fresh])
  show ?thesis
    unfolding multipartBranch_def Let_def cleanTempNow_def
    using plain piped
    by (simp split: sum.splits option.splits prod.splits)
qed

lemma jsonBranch_handled:
  assumes fresh: "trace w = []" "dirs w = []"
  shows "(\<exists>err. jsonBranch e req w = (Inl err, w)) \<or>
         (\<exists>resp deferred. fst (jsonBranch e req w) = Inr (resp, deferred) \<and>
            settled e resp (finishStream e deferred (snd (jsonBranch e req w))))"
proof -
  have plain: "\<exists>resp deferred. fst (Inr (r, None) :: outcome, w) = Inr (resp, deferred) \<and>
                 settled e resp (finishStream e deferred (snd (Inr (r, None) :: outcome, w)))" for r
    using settled_fresh [OF fresh(1)] by (simp add: finishStream_def)
  have piped: "\<exists>resp deferred.
           fst (runPipeline e (jsonCallback e url from to keep final) keep final to
                  jsonCaught w) = Inr (resp, deferred) \<and>
           settled e resp (finishStream e deferred
             (snd (runPipeline e (jsonCallback e url from to keep final) keep final to
                     jsonCaught w)))" for url "from" to keep final
    by (rule runPipeline_shape [OF jsonCallback_staged jsonCaught_catches fresh])
  show ?thesis
    unfolding jsonBranch_def Let_def
    using plain piped
    by (simp split: sum.splits option.splits prod.splits json_body.splits)
qed

lemma requestLifecycle_settled:
  assumes fresh: "trace w = []" "dirs w = []"
  shows "settled e (fst (requestLifecycle e req w)) (snd (requestLifecycle e req w))"
proof -
  have direct: "settled e resp w" for resp
    by (rule settled_fresh [OF fresh(1)])
  let ?b = "if includes_str (reqContentType req) (js ''multipart/form-data'')
            then multipartBranch e req w
            else if includes_str (reqContentType req) (js ''application/json'') \<or>
                    includes_str (reqContentType req) (js ''text/json'')
            then jsonBranch e req w
            else (Inr (badRequest (js ''Content-Type must be multipart/form-data or application/json''), None), w)"
  have b: "(\<exists>err. ?b = (Inl err, w)) \<or>
           (\<exists>resp deferred. fst ?b = Inr (resp, deferred) \<and>
              settled e resp (finishStream e deferred (snd ?b)))"
    using multipartBranch_handled [OF fresh, of e req] jsonBranch_handled [OF fresh, of e req]
      direct
    by (simp add: finishStream_def)
  have routed: "settled e (fst (case (case ?b of
                       (Inl err, w1) \<Rightarrow>
                         ((\<lparr> rStatus = 500, rHeaders = [], rBody = TextBody (message err) \<rparr>, None), w1)
                     | (Inr out, w1) \<Rightarrow> (out, w1)) of
                  ((resp, deferred), w1) \<Rightarrow> (resp, finishStream e deferred w1)))
            (snd (case (case ?b of
                       (Inl err, w1) \<Rightarrow>
                         ((\<lparr> rStatus = 500, rHeaders = [], rBody = TextBody (message err) \<rparr>, None), w1)
                     | (Inr out, w1) \<Rightarrow> (out, w1)) of
                  ((resp, deferred), w1) \<Rightarrow> (resp, finishStream e deferred w1)))"
    using b
  proof
    assume "\<exists>err. ?b = (Inl err, w)"
    then obtain err where "?b = (Inl err, w)" by blast
    then show ?thesis using direct by (simp add: finishStream_def)
  next
    assume "\<exists>resp deferred. fst ?b = Inr (resp, deferred) \<and>
              settled e resp (finishStream e deferred (snd ?b))"
    then obtain resp deferred where "fst ?b = Inr (resp, deferred)"
      and "settled e resp (finishStream e deferred (snd ?b))"
      by blast
    then show ?thesis by (simp add: case_prod_beta)
  qed
  show ?thesis
    unfolding requestLifecycle_def fetchHandler_def
    using routed direct by (simp add: finishStream_def notFound_def)
qed

lemma precedes_absent: "b \<notin> set tr \<Longrightarrow> precedes a b tr"
  by (induction tr) auto

text \<open>
  Claim C8, as amended.  For every request, on a fresh world: the workspace is created and
  the staging of the input starts before the admission slot is acquired; the converter is
  started only after the slot is acquired; when the converter was started, it has exited
  before the slot is released; and the slot is released before the forward upload starts and
  before the response stream is opened.
\<close>

theorem slot_held_only_for_conversion:
  assumes "trace w = []" and "dirs w = []"
  shows "precedes WorkspaceCreated SlotAcquired (trace (snd (requestLifecycle e req w)))
       \<and> precedes StagingStarted SlotAcquired (trace (snd (requestLifecycle e req w)))
       \<and> precedes SlotAcquired ConverterSpawned (trace (snd (requestLifecycle e req w)))
       \<and> (ConverterSpawned \<in> set (trace (snd (requestLifecycle e req w))) \<longrightarrow>
            precedes ConverterExited SlotReleased (trace (snd (requestLifecycle e req w))))
       \<and> precedes SlotReleased UploadStarted (trace (snd (requestLifecycle e req w)))
       \<and> precedes SlotReleased StreamOpened (trace (snd (requestLifecycle e req w)))"
proof -
  let ?tr = "trace (snd (requestLifecycle e req w))"
  from requestLifecycle_settled [OF assms, of e req]
  have "pipelineTrace ?tr" by (simp add: settled_def)
  then consider
    (plain) "set ?tr \<subseteq> {WorkspaceCreated, StagingStarted, CleanupAttempted}"
    | (converted) c post where "c \<in> set conversionTraces"
        "?tr = WorkspaceCreated # StagingStarted # c @ post"
        "set post \<subseteq> {UploadStarted, StreamOpened, CleanupAttempted}"
    unfolding pipelineTrace_def by blast
  then show ?thesis
  proof cases
    case plain
    then have "SlotAcquired \<notin> set ?tr" "ConverterSpawned \<notin> set ?tr"
      "UploadStarted \<notin> set ?tr" "StreamOpened \<notin> set ?tr"
      by auto
    then show ?thesis by (simp add: precedes_absent)
  next
    case converted
    from converted(1) consider "c = [SlotAcquired, SlotReleased]"
      | "c = [SlotAcquired, ConverterSpawned, ConverterExited, SlotReleased]"
      by (auto simp: conversionTraces_def)
    then show ?thesis
    proof cases
      case 1
      have "ConverterSpawned \<notin> set post" using converted(3) by auto
      then show ?thesis by (simp add: converted(2) 1)
    next
      case 2
      then show ?thesis by (simp add: converted(2))
    qed
  qed
qed

theorem slot_held_only_for_conversion_witness:
  "trace (snd (requestLifecycle quietEnv jsonRequest emptyWorld)) =
     [WorkspaceCreated, StagingStarted, SlotAcquired, ConverterSpawned, ConverterExited,
      SlotReleased, UploadStarted, CleanupAttempted]
   \<and> precedes SlotReleased UploadStarted (trace (snd (requestLifecycle quietEnv jsonRequest emptyWorld)))
   \<and> precedes ConverterExited SlotReleased (trace (snd (requestLifecycle quietEnv jsonRequest emptyWorld)))"
proof -
  have tr: "trace (snd (requestLifecycle quietEnv jsonRequest emptyWorld)) =
     [WorkspaceCreated, StagingStarted, SlotAcquired, ConverterSpawned, ConverterExited,
      SlotReleased, UploadStarted, CleanupAttempted]"
    by code_simp
  have fresh: "trace emptyWorld = []" "dirs emptyWorld = []"
    by (simp_all add: emptyWorld_def)
  from slot_held_only_for_conversion [OF fresh, of quietEnv jsonRequest] tr
  show ?thesis by simp
qed

text \<open>
  The claim as stated fails: in a request handled by the pipeline the slot is not acquired
  before the workspace is created, since the handler creates the workspace and stages the
  input in it before it calls \<open>convertFile\<close>.
\<close>

theorem slot_before_workspace_counterexample:
  "trace (snd (requestLifecycle quietEnv multipartRequest emptyWorld)) =
     [WorkspaceCreated, StagingStarted, SlotAcquired, ConverterSpawned, ConverterExited,
      SlotReleased, UploadStarted, CleanupAttempted]
   \<and> \<not> precedes SlotAcquired WorkspaceCreated
         (trace (snd (requestLifecycle quietEnv multipartRequest emptyWorld)))"
  by code_simp




text \<open>
  Claim C1, evaluated where the code departs from it.  A JSON request with the \<open>download\<close>
  flag whose download source answers with status 404 is answered with status 400; the
  workspace was created, its removal is never attempted, and the directory is still there
  when the request has completed.  The multipart branch, on a request with the same flag
  whose staging fails, removes the workspace.
\<close>

theorem workspace_survives_json_download_failure:
  "fst (requestLifecycle sourceMissing (jsonRequest\<lparr> hasDownload := True \<rparr>) emptyWorld) =
     errorResponse 400 (js ''Failed to fetch/stream downloadUrl'') (js ''FETCH_NOT_OK:404:Not Found'')
   \<and> trace (snd (requestLifecycle sourceMissing (jsonRequest\<lparr> hasDownload := True \<rparr>) emptyWorld)) =
       [WorkspaceCreated, StagingStarted]
   \<and> dirs (snd (requestLifecycle sourceMissing (jsonRequest\<lparr> hasDownload := True \<rparr>) emptyWorld)) =
       [js ''/tmp/doc-conv-Ab12Cd'']
   \<and> trace (snd (requestLifecycle uploadBreaks (multipartRequest\<lparr> hasDownload := True \<rparr>)
                   emptyWorld)) =
       [WorkspaceCreated, StagingStarted, CleanupAttempted]
   \<and> dirs (snd (requestLifecycle uploadBreaks (multipartRequest\<lparr> hasDownload := True \<rparr>)
                  emptyWorld)) = []"
  by code_simp

text \<open>
  Claim C6, evaluated where the code departs from it.  A JSON request without an upload URL
  and without the \<open>download\<close> flag is answered with status 400 only after the workspace was
  created and the input was staged in it.  The multipart branch answers the same omission
  before anything is created.
\<close>

theorem json_upload_url_checked_after_staging:
  "fst (requestLifecycle quietEnv jsonRequestWithoutUploadUrl emptyWorld) =
     errorResponse 400 (js ''Failed to fetch/stream downloadUrl'') (js ''MISSING_UPLOAD_URL'')
   \<and> trace (snd (requestLifecycle quietEnv jsonRequestWithoutUploadUrl emptyWorld)) =
       [WorkspaceCreated, StagingStarted, CleanupAttempted]
   \<and> rStatus (fst (requestLifecycle quietEnv multipartRequestWithoutUploadUrl emptyWorld)) = 400
   \<and> trace (snd (requestLifecycle quietEnv multipartRequestWithoutUploadUrl emptyWorld)) = []"
  by code_simp

end
